theory Spec2Isabelle
  imports Complex_Main "HOL-Library.AList" "HOL-Library.Multiset"
begin

section \<open>Exceptions\<close>

text \<open>
  Python exceptions are values. Each constructor is the class the source (or the library
  it calls) raises and carries the message that \<^verbatim>\<open>str(e)\<close> returns. A function that may
  raise returns \<open>exn + 'a\<close>, with \<open>Inl\<close> for the raised exception.
\<close>

datatype exn =
    ValueError string
  | RuntimeError string
  | IndexError string
  | OSError string
  | NameError string

fun str :: "exn \<Rightarrow> string" where
  "str (ValueError m) = m"
| "str (RuntimeError m) = m"
| "str (IndexError m) = m"
| "str (OSError m) = m"
| "str (NameError m) = m"

section \<open>Vectors\<close>

text \<open>Floating-point numbers are idealised as reals.\<close>

type_synonym vector = "real list"
type_synonym matrix = "real list list"

definition dot :: "vector \<Rightarrow> vector \<Rightarrow> real" where
  "dot u v = sum_list (map2 (*) u v)"

definition norm2 :: "vector \<Rightarrow> real" where
  "norm2 v = sqrt (dot v v)"

text \<open>scikit-learn's \<^verbatim>\<open>normalize\<close>: a row of norm zero is left as it is.\<close>

definition normalize :: "vector \<Rightarrow> vector" where
  "normalize v = (if norm2 v = 0 then v else map (\<lambda>x. x / norm2 v) v)"

section \<open>The vectorizer (\<^verbatim>\<open>lightweight_embeddings.py\<close>)\<close>

text \<open>
  \<^verbatim>\<open>TfidfVectorizer\<close> is scikit-learn's, not this repository's. The object is modelled by
  the two operations the source calls on it and by what it has learned: \<open>sk_fit\<close> builds
  the vocabulary (with its weights) from a corpus, \<open>sk_transform\<close> projects texts through
  a learned vocabulary, and each may raise; \<open>learned\<close> is the vocabulary held by the
  object (\<open>None\<close> before any fit).
\<close>

record 'v TfidfVectorizer =
  sk_fit :: "string list \<Rightarrow> exn + 'v"
  sk_transform :: "'v \<Rightarrow> string list \<Rightarrow> exn + matrix"
  learned :: "'v option"

text \<open>
  \<^verbatim>\<open>fit_transform\<close> learns the vocabulary and then projects the same corpus through it.
  The object keeps what it has learned even when the projection raises.
\<close>

definition fit_transform ::
  "'v TfidfVectorizer \<Rightarrow> string list \<Rightarrow> (exn + matrix) \<times> 'v TfidfVectorizer" where
  "fit_transform vz docs =
     (case sk_fit vz docs of
        Inl e \<Rightarrow> (Inl e, vz)
      | Inr v \<Rightarrow>
          (case sk_transform vz v docs of
             Inl e \<Rightarrow> (Inl e, vz\<lparr>learned := Some v\<rparr>)
           | Inr m \<Rightarrow> (Inr m, vz\<lparr>learned := Some v\<rparr>)))"

definition transform :: "'v TfidfVectorizer \<Rightarrow> string list \<Rightarrow> exn + matrix" where
  "transform vz docs =
     (case learned vz of
        None \<Rightarrow> Inl (ValueError ''The TF-IDF vectorizer is not fitted'')
      | Some v \<Rightarrow> sk_transform vz v docs)"

record 'v LightweightEmbeddings =
  vectorizer :: "'v TfidfVectorizer"
  is_fitted :: bool

text \<open>\<^verbatim>\<open>__init__\<close>: a fresh vectorizer, nothing learned, \<^verbatim>\<open>is_fitted = False\<close>.\<close>

definition LightweightEmbeddings_init ::
  "(string list \<Rightarrow> exn + 'v) \<Rightarrow> ('v \<Rightarrow> string list \<Rightarrow> exn + matrix) \<Rightarrow> 'v LightweightEmbeddings" where
  "LightweightEmbeddings_init f t =
     \<lparr>vectorizer = \<lparr>sk_fit = f, sk_transform = t, learned = None\<rparr>, is_fitted = False\<rparr>"

text \<open>
  \<^verbatim>\<open>embed_documents\<close>: fit and transform when not yet fitted, transform otherwise. The
  flag is set only after \<^verbatim>\<open>fit_transform\<close> has returned; when it raises, the exception
  leaves the method and the flag stays as it was.
\<close>

definition embed_documents ::
  "'v LightweightEmbeddings \<Rightarrow> string list \<Rightarrow> (exn + matrix) \<times> 'v LightweightEmbeddings" where
  "embed_documents self docs =
     (if \<not> is_fitted self then
        (case fit_transform (vectorizer self) docs of
           (Inl e, vz) \<Rightarrow> (Inl e, self\<lparr>vectorizer := vz\<rparr>)
         | (Inr m, vz) \<Rightarrow> (Inr m, self\<lparr>vectorizer := vz, is_fitted := True\<rparr>))
      else (transform (vectorizer self) docs, self))"

text \<open>\<^verbatim>\<open>embed_query\<close>: the guard, then row 0 of the transformed one-element list.\<close>

definition embed_query :: "'v LightweightEmbeddings \<Rightarrow> string \<Rightarrow> exn + vector" where
  "embed_query self query =
     (if \<not> is_fitted self then Inl (ValueError ''Vectorizer not fitted yet'')
      else (case transform (vectorizer self) [query] of
              Inl e \<Rightarrow> Inl e
            | Inr [] \<Rightarrow> Inl (IndexError ''index 0 is out of bounds for axis 0 with size 0'')
            | Inr (row # _) \<Rightarrow> Inr row))"

text \<open>A sequence of \<^verbatim>\<open>embed_documents\<close> calls on one instance: the results in call order
  and the instance after the last call.\<close>

fun embed_all ::
  "'v LightweightEmbeddings \<Rightarrow> string list list \<Rightarrow> (exn + matrix) list \<times> 'v LightweightEmbeddings" where
  "embed_all self [] = ([], self)"
| "embed_all self (docs # rest) =
     (case embed_documents self docs of
        (r, self') \<Rightarrow> (case embed_all self' rest of (rs, self'') \<Rightarrow> (r # rs, self'')))"

text \<open>
  What a call sequence on a fresh instance is expected to produce, written without the
  flag. \<open>first_fit\<close> is the vocabulary of the first collection on which \<open>sk_fit\<close> does not
  raise; \<open>first_fitted\<close> is the vocabulary of the first collection on which
  \<^verbatim>\<open>fit_transform\<close> as a whole does not raise, the one in use from then on; \<open>projected\<close>
  is the list of results: each call before that one raises, that call and all later ones
  return what projecting their input through that vocabulary gives.
\<close>

fun first_fit :: "(string list \<Rightarrow> exn + 'v) \<Rightarrow> string list list \<Rightarrow> 'v option" where
  "first_fit f [] = None"
| "first_fit f (docs # rest) = (case f docs of Inl e \<Rightarrow> first_fit f rest | Inr v \<Rightarrow> Some v)"

fun first_fitted ::
  "(string list \<Rightarrow> exn + 'v) \<Rightarrow> ('v \<Rightarrow> string list \<Rightarrow> exn + matrix) \<Rightarrow> string list list \<Rightarrow> 'v option" where
  "first_fitted f t [] = None"
| "first_fitted f t (docs # rest) =
     (case f docs of
        Inl e \<Rightarrow> first_fitted f t rest
      | Inr v \<Rightarrow> (case t v docs of Inl e \<Rightarrow> first_fitted f t rest | Inr m \<Rightarrow> Some v))"

fun projected ::
  "(string list \<Rightarrow> exn + 'v) \<Rightarrow> ('v \<Rightarrow> string list \<Rightarrow> exn + matrix) \<Rightarrow> string list list
     \<Rightarrow> (exn + matrix) list" where
  "projected f t [] = []"
| "projected f t (docs # rest) =
     (case f docs of
        Inl e \<Rightarrow> Inl e # projected f t rest
      | Inr v \<Rightarrow>
          (case t v docs of
             Inl e \<Rightarrow> Inl e # projected f t rest
           | Inr m \<Rightarrow> Inr m # map (t v) rest))"

text \<open>
  scikit-learn's projection, for the claims that depend on what it computes. A learned
  vocabulary is the list of its terms, one per column, each with its inverse document
  frequency weight. The analyzer (lowercasing, tokenising, stop words, n-grams) turns a
  text into its terms. The row of a text holds, for each term of the vocabulary, the
  number of its occurrences in the text times the term's weight, and is then brought to
  Euclidean norm 1. An empty collection and a vocabulary without terms are rejected (the
  messages are abridged).
\<close>

type_synonym vocabulary = "(string \<times> real) list"

definition tfidf_row :: "vocabulary \<Rightarrow> string list \<Rightarrow> vector" where
  "tfidf_row voc terms = normalize (map (\<lambda>(t, w). real (count_list terms t) * w) voc)"

definition tfidf_transform ::
  "(string \<Rightarrow> string list) \<Rightarrow> vocabulary \<Rightarrow> string list \<Rightarrow> exn + matrix" where
  "tfidf_transform analyzer voc docs =
     (if docs = [] then Inl (ValueError ''Found array with 0 sample(s)'')
      else if voc = [] then Inl (ValueError ''Found array with 0 feature(s)'')
      else Inr (map (\<lambda>d. tfidf_row voc (analyzer d)) docs))"

text \<open>
  A small analyzer and fit, used to run the model on concrete inputs: the terms of a text
  are its space-separated words, the vocabulary is the distinct terms of the corpus in
  order of first occurrence, each with weight 1, and fitting a corpus with no term raises
  \<^verbatim>\<open>ValueError\<close> (as scikit-learn does for an empty vocabulary).
\<close>

fun words_acc :: "string \<Rightarrow> string \<Rightarrow> string list" where
  "words_acc w [] = (if w = [] then [] else [rev w])"
| "words_acc w (c # cs) =
     (if c = CHR '' '' then (if w = [] then words_acc [] cs else rev w # words_acc [] cs)
      else words_acc (c # w) cs)"

definition words :: "string \<Rightarrow> string list" where
  "words s = words_acc [] s"

definition word_fit :: "string list \<Rightarrow> exn + vocabulary" where
  "word_fit docs =
     (let vocab = remdups (concat (map words docs))
      in if vocab = []
         then Inl (ValueError ''empty vocabulary; perhaps the documents only contain stop words'')
         else Inr (map (\<lambda>t. (t, 1)) vocab))"

section \<open>The similarity index (\<^verbatim>\<open>vector_store.py\<close>)\<close>

record vectorstore =
  vectors :: matrix
  texts :: "string list"

text \<open>
  \<^verbatim>\<open>cosine_similarity([query_vector], vectors)[0]\<close>: scikit-learn rejects an empty matrix,
  rows without features and rows whose length differs from the query's.
\<close>

definition cosine_similarity :: "vector \<Rightarrow> matrix \<Rightarrow> exn + real list" where
  "cosine_similarity q m =
     (if m = [] \<or> q = [] \<or> (\<exists>r \<in> set m. length r \<noteq> length q)
      then Inl (ValueError ''Incompatible dimension for X and Y matrices'')
      else Inr (map (\<lambda>r. dot (normalize q) (normalize r)) m))"

text \<open>
  \<^verbatim>\<open>np.argsort\<close> is NumPy's. What it promises for its default sort is that the result
  lists every index of the array once and that the values are ascending along it; the
  order among equal values is not fixed and depends on the sort NumPy picks for the
  array. The sort is therefore a parameter of \<^verbatim>\<open>search\<close>, and \<open>is_argsort\<close> states the
  promise.
\<close>

definition is_argsort :: "(real list \<Rightarrow> nat list) \<Rightarrow> bool" where
  "is_argsort np_argsort \<longleftrightarrow>
     (\<forall>xs. mset (np_argsort xs) = mset [0..<length xs] \<and> sorted (map (\<lambda>i. xs ! i) (np_argsort xs)))"

text \<open>Two sorts that keep the promise: one lists equal values in index order, the other
  in reverse index order.\<close>

definition argsort_index_order :: "real list \<Rightarrow> nat list" where
  "argsort_index_order xs = sort_key (\<lambda>i. xs ! i) [0..<length xs]"

definition argsort_reverse_order :: "real list \<Rightarrow> nat list" where
  "argsort_reverse_order xs = sort_key (\<lambda>i. xs ! i) (rev [0..<length xs])"

text \<open>The slice \<^verbatim>\<open>xs[:k]\<close> for a Python integer \<open>k\<close>: a negative \<open>k\<close> counts from the end.\<close>

definition py_take :: "int \<Rightarrow> 'a list \<Rightarrow> 'a list" where
  "py_take k xs = (if 0 \<le> k then take (nat k) xs else take (length xs - nat (- k)) xs)"

text \<open>\<^verbatim>\<open>top_indices = np.argsort(similarities)[::-1][:k]\<close>\<close>

definition top_indices :: "(real list \<Rightarrow> nat list) \<Rightarrow> real list \<Rightarrow> int \<Rightarrow> nat list" where
  "top_indices np_argsort sims k = py_take k (rev (np_argsort sims))"

text \<open>The result loop: \<^verbatim>\<open>texts[idx]\<close> raises when \<open>idx\<close> is past the end of the list.\<close>

fun collect :: "string list \<Rightarrow> real list \<Rightarrow> nat list \<Rightarrow> exn + (string \<times> real) list" where
  "collect txts sims [] = Inr []"
| "collect txts sims (idx # rest) =
     (if idx < length txts then
        (case collect txts sims rest of
           Inl e \<Rightarrow> Inl e
         | Inr rs \<Rightarrow> Inr ((txts ! idx, sims ! idx) # rs))
      else Inl (IndexError ''list index out of range''))"

definition search_try ::
  "(real list \<Rightarrow> nat list) \<Rightarrow> 'v LightweightEmbeddings \<Rightarrow> string \<Rightarrow> vectorstore \<Rightarrow> int
     \<Rightarrow> exn + (string \<times> real) list" where
  "search_try np_argsort emb query vs k =
     (case embed_query emb query of
        Inl e \<Rightarrow> Inl e
      | Inr query_vector \<Rightarrow>
          (case cosine_similarity query_vector (vectors vs) of
             Inl e \<Rightarrow> Inl e
           | Inr similarities \<Rightarrow>
               collect (texts vs) similarities (top_indices np_argsort similarities k)))"

text \<open>\<^verbatim>\<open>search\<close>: every exception of the body is re-raised as a \<^verbatim>\<open>RuntimeError\<close>.\<close>

definition search ::
  "(real list \<Rightarrow> nat list) \<Rightarrow> 'v LightweightEmbeddings \<Rightarrow> string \<Rightarrow> vectorstore \<Rightarrow> int
     \<Rightarrow> exn + (string \<times> real) list" where
  "search np_argsort emb query vs k =
     (case search_try np_argsort emb query vs k of
        Inl e \<Rightarrow> Inl (RuntimeError (''Failed to search vectorstore: '' @ str e))
      | Inr results \<Rightarrow> Inr results)"

section \<open>The conversation log's data (\<^verbatim>\<open>chat_manager.py\<close>)\<close>

text \<open>
  A message is the dictionary \<^verbatim>\<open>add_message\<close> builds; its free-form metadata is a JSON
  value. A document's entry holds its messages and two timestamps. The store's
  \<^verbatim>\<open>history\<close> is a Python \<^verbatim>\<open>dict\<close> keyed by document name: an association list with
  distinct keys, in insertion order.
\<close>

datatype json =
    JNull
  | JBool bool
  | JNum int
  | JStr string
  | JArr "json list"
  | JObj "(string \<times> json) list"

record message =
  role :: string
  content :: string
  timestamp :: string
  metadata :: json

record chat_data =
  messages :: "message list"
  created_at :: string
  updated_at :: string

type_synonym history = "(string \<times> chat_data) list"

section \<open>The file system\<close>

text \<open>
  A path is the list of its components below the working directory; the working
  directory itself, \<open>[]\<close>, is always a directory. The file system is the list of its
  entries in directory order. Operations fail only for reasons the entries decide (a
  missing file, a directory where a file is needed, and so on): nothing is
  write-protected, and the disk is never full except where a fault is a parameter of the
  write (\<^verbatim>\<open>pickle.dump\<close> below).

  The content of a file is modelled by what the library that reads it makes of it:
  \<^item> \<open>JsonDoc h\<close> is the JSON text of the conversation history \<open>h\<close>: what \<^verbatim>\<open>json.dump\<close>
    wrote, and what \<^verbatim>\<open>json.load\<close> reads back;
  \<^item> \<open>Pickled v\<close> is a pickle of the Python object \<open>v\<close>: what \<^verbatim>\<open>pickle.dump\<close> wrote, and
    what \<^verbatim>\<open>pickle.load\<close> reads back, whatever the object;
  \<^item> \<open>PickleExits m\<close> is a pickle whose loading runs code that raises \<^verbatim>\<open>SystemExit(m)\<close>
    (a pickle may name any callable to be called at load time);
  \<^item> \<open>Raw b\<close> is the bytes \<open>b\<close>, taken to be neither JSON text nor a pickle: an uploaded
    document, an empty or truncated file, garbage.

  The store's history is typed as a mapping from document names to logs throughout, so a
  file holding JSON text of another shape (which \<^verbatim>\<open>json.load\<close> would return and the
  store would keep as its history) has no counterpart here.
\<close>

type_synonym path = "string list"

text \<open>The Python objects a pickle can hold, as far as the program tells them apart: the
  vectorstore dictionary, \<^verbatim>\<open>None\<close>, and anything else.\<close>

datatype pyobj =
    PyNone
  | PyVectorstore vectorstore
  | PyOther string

datatype file_content =
    Raw string
  | JsonDoc history
  | Pickled pyobj
  | PickleExits string

datatype node = Dir | File file_content

type_synonym fs = "(path \<times> node) list"

definition stat :: "fs \<Rightarrow> path \<Rightarrow> node option" where
  "stat disk p = (if p = [] then Some Dir else map_of disk p)"

definition exists :: "fs \<Rightarrow> path \<Rightarrow> bool" where
  "exists disk p = (stat disk p \<noteq> None)"

definition is_dir :: "fs \<Rightarrow> path \<Rightarrow> bool" where
  "is_dir disk p = (stat disk p = Some Dir)"

definition is_file :: "fs \<Rightarrow> path \<Rightarrow> bool" where
  "is_file disk p = (case stat disk p of Some (File c) \<Rightarrow> True | _ \<Rightarrow> False)"

text \<open>\<^verbatim>\<open>Path(d) / name\<close>: an empty name or \<^verbatim>\<open>"."\<close> adds no component. A name is taken
  to be a single component: it holds no separator and is not \<^verbatim>\<open>".."\<close>.\<close>

definition child :: "path \<Rightarrow> string \<Rightarrow> path" where
  "child d name = (if name = [] \<or> name = ''.'' then d else d @ [name])"

text \<open>\<^verbatim>\<open>open(p, "rb")\<close> and read.\<close>

definition read_file :: "fs \<Rightarrow> path \<Rightarrow> exn + file_content" where
  "read_file disk p =
     (case stat disk p of
        None \<Rightarrow> Inl (OSError ''No such file or directory'')
      | Some Dir \<Rightarrow> Inl (OSError ''Is a directory'')
      | Some (File c) \<Rightarrow> Inr c)"

text \<open>\<^verbatim>\<open>open(p, "wb")\<close>, write, close: creates or replaces the file.\<close>

definition write_file :: "fs \<Rightarrow> path \<Rightarrow> file_content \<Rightarrow> exn + fs" where
  "write_file disk p c =
     (if stat disk p = Some Dir then Inl (OSError ''Is a directory'')
      else if stat disk (butlast p) \<noteq> Some Dir then Inl (OSError ''No such file or directory'')
      else Inr (AList.update p (File c) disk))"

text \<open>
  \<^verbatim>\<open>Path.mkdir(parents=True, exist_ok=True)\<close>: walks down from the working directory,
  \<open>done\<close> being the part already known to be a directory, and creates what is missing;
  it fails when a component exists and is a file.
\<close>

fun mkdirs :: "fs \<Rightarrow> path \<Rightarrow> path \<Rightarrow> exn + fs" where
  "mkdirs disk done [] = Inr disk"
| "mkdirs disk done (c # cs) =
     (case stat disk (done @ [c]) of
        Some Dir \<Rightarrow> mkdirs disk (done @ [c]) cs
      | Some (File _) \<Rightarrow> Inl (OSError ''File exists'')
      | None \<Rightarrow> mkdirs (AList.update (done @ [c]) Dir disk) (done @ [c]) cs)"

definition mkdir_parents :: "fs \<Rightarrow> path \<Rightarrow> exn + fs" where
  "mkdir_parents disk p = mkdirs disk [] p"

text \<open>\<^verbatim>\<open>Path.unlink()\<close>\<close>

definition unlink :: "fs \<Rightarrow> path \<Rightarrow> exn + fs" where
  "unlink disk p =
     (case stat disk p of
        None \<Rightarrow> Inl (OSError ''No such file or directory'')
      | Some Dir \<Rightarrow> Inl (OSError ''Is a directory'')
      | Some (File _) \<Rightarrow> Inr (AList.delete p disk))"

text \<open>\<^verbatim>\<open>shutil.rmtree(p)\<close>: the directory and everything below it.\<close>

definition rmtree :: "fs \<Rightarrow> path \<Rightarrow> exn + fs" where
  "rmtree disk p =
     (case stat disk p of
        None \<Rightarrow> Inl (OSError ''No such file or directory'')
      | Some (File _) \<Rightarrow> Inl (OSError ''Not a directory'')
      | Some Dir \<Rightarrow> Inr (filter (\<lambda>(q, n). take (length p) q \<noteq> p) disk))"

text \<open>
  \<^verbatim>\<open>shutil.copy2(src, dst)\<close>: a directory as destination means the file of the same name
  inside it; copying a file onto itself raises \<^verbatim>\<open>SameFileError\<close>.
\<close>

definition copy2 :: "fs \<Rightarrow> path \<Rightarrow> path \<Rightarrow> exn + fs" where
  "copy2 disk src dst =
     (let target = (if stat disk dst = Some Dir \<and> src \<noteq> [] then dst @ [last src] else dst)
      in if stat disk src \<noteq> None \<and> target = src
         then Inl (OSError ''src and dst are the same file'')
         else (case read_file disk src of
                 Inl e \<Rightarrow> Inl e
               | Inr c \<Rightarrow> write_file disk target c))"

text \<open>\<^verbatim>\<open>Path.replace(target)\<close> for a source that is a file: the atomic rename.\<close>

definition replace :: "fs \<Rightarrow> path \<Rightarrow> path \<Rightarrow> exn + fs" where
  "replace disk src dst =
     (case stat disk src of
        None \<Rightarrow> Inl (OSError ''No such file or directory'')
      | Some Dir \<Rightarrow> Inl (OSError ''Is a directory'')
      | Some (File c) \<Rightarrow>
          (if stat disk dst = Some Dir then Inl (OSError ''Is a directory'')
           else if stat disk (butlast dst) \<noteq> Some Dir then Inl (OSError ''No such file or directory'')
           else if dst = src then Inr disk
           else Inr (AList.update dst (File c) (AList.delete src disk))))"

text \<open>The names in a directory, in directory order (\<^verbatim>\<open>iterdir\<close>).\<close>

definition iterdir :: "fs \<Rightarrow> path \<Rightarrow> string list" where
  "iterdir disk d = map (\<lambda>(q, n). last q) (filter (\<lambda>(q, n). q \<noteq> [] \<and> butlast q = d) disk)"

text \<open>The name of a path, and \<^verbatim>\<open>PurePath.suffix\<close>, \<^verbatim>\<open>stem\<close> and \<^verbatim>\<open>with_suffix\<close>: the
  suffix starts at the last dot of the name, unless that dot is the first or the last
  character.\<close>

definition after_dot :: "string \<Rightarrow> string" where
  "after_dot name = rev (takeWhile (\<lambda>c. c \<noteq> CHR ''.'') (rev name))"

definition suffix :: "string \<Rightarrow> string" where
  "suffix name =
     (if after_dot name \<noteq> [] \<and> length (after_dot name) + 1 < length name
      then CHR ''.'' # after_dot name else [])"

definition stem :: "string \<Rightarrow> string" where
  "stem name = take (length name - length (suffix name)) name"

definition with_suffix :: "path \<Rightarrow> string \<Rightarrow> exn + path" where
  "with_suffix p suf =
     (if CHR ''/'' \<in> set suf \<or> (suf \<noteq> [] \<and> hd suf \<noteq> CHR ''.'') \<or> suf = ''.''
      then Inl (ValueError ''Invalid suffix'')
      else if p = [] then Inl (ValueError ''path has an empty name'')
      else Inr (butlast p @ [stem (last p) @ suf]))"

section \<open>Configuration (\<^verbatim>\<open>config.py\<close>)\<close>

definition PDF_UPLOAD_DIR :: path where
  "PDF_UPLOAD_DIR = [''data'', ''pdfs'']"

definition VECTOR_STORE_DIR :: path where
  "VECTOR_STORE_DIR = [''data'', ''vectorstore'']"

definition TOP_K_RESULTS :: int where
  "TOP_K_RESULTS = 4"

section \<open>Persisting the index (\<^verbatim>\<open>vector_store.py\<close>)\<close>

text \<open>
  \<^verbatim>\<open>save_vectorstore\<close>: make the document's directory, open \<^verbatim>\<open>vectors.pkl\<close> for writing,
  which creates the file or empties the one that is there, and pickle the dictionary into
  it; any exception is re-raised as a \<^verbatim>\<open>RuntimeError\<close>. \<open>dump_error\<close> says whether
  \<^verbatim>\<open>pickle.dump\<close> raises while writing this dictionary (a full disk, say): if it does,
  which exception, and the bytes written until then, which the file then holds and which
  are not a complete pickle. The result is the exception raised, if any, and the file
  system left behind (directories made and the file emptied before the failing step stay
  so).
\<close>

definition save_vectorstore_try ::
  "(vectorstore \<Rightarrow> (exn \<times> string) option) \<Rightarrow> fs \<Rightarrow> vectorstore \<Rightarrow> string \<Rightarrow> exn option \<times> fs" where
  "save_vectorstore_try dump_error disk vs doc_name =
     (let save_path = child VECTOR_STORE_DIR doc_name
      in case mkdir_parents disk save_path of
           Inl e \<Rightarrow> (Some e, disk)
         | Inr disk1 \<Rightarrow>
             (case write_file disk1 (save_path @ [''vectors.pkl'']) (Raw []) of
                Inl e \<Rightarrow> (Some e, disk1)
              | Inr disk2 \<Rightarrow>
                  (case dump_error vs of
                     Some (e, written) \<Rightarrow>
                       (Some e, AList.update (save_path @ [''vectors.pkl'']) (File (Raw written)) disk2)
                   | None \<Rightarrow>
                       (None, AList.update (save_path @ [''vectors.pkl''])
                                (File (Pickled (PyVectorstore vs))) disk2))))"

definition save_vectorstore ::
  "(vectorstore \<Rightarrow> (exn \<times> string) option) \<Rightarrow> fs \<Rightarrow> vectorstore \<Rightarrow> string \<Rightarrow> exn option \<times> fs" where
  "save_vectorstore dump_error disk vs doc_name =
     (case save_vectorstore_try dump_error disk vs doc_name of
        (Some e, disk') \<Rightarrow> (Some (RuntimeError (''Failed to save vectorstore: '' @ str e)), disk')
      | (None, disk') \<Rightarrow> (None, disk'))"

text \<open>
  What leaves a call: an exception of the class \<^verbatim>\<open>Exception\<close>, which the handlers
  written \<^verbatim>\<open>except Exception\<close> catch, or one outside it (\<^verbatim>\<open>SystemExit\<close>,
  \<^verbatim>\<open>KeyboardInterrupt\<close>), which they do not. Only unpickling, which can run code named
  by the file, raises the second kind here.
\<close>

datatype raised =
    Exception exn
  | SystemExit string

text \<open>\<^verbatim>\<open>pickle.load\<close> of an open file: a pickle gives back its object, whatever it is.\<close>

fun pickle_load :: "file_content \<Rightarrow> raised + pyobj" where
  "pickle_load (Pickled v) = Inr v"
| "pickle_load (PickleExits m) = Inl (SystemExit m)"
| "pickle_load (Raw b) = Inl (Exception (ValueError ''could not unpickle''))"
| "pickle_load (JsonDoc h) = Inl (Exception (ValueError ''could not unpickle''))"

text \<open>\<^verbatim>\<open>load_vectorstore\<close>: the body of the \<^verbatim>\<open>try\<close>, then the handler
  \<^verbatim>\<open>except Exception: return None\<close>.\<close>

definition load_vectorstore_try :: "fs \<Rightarrow> string \<Rightarrow> raised + pyobj" where
  "load_vectorstore_try disk doc_name =
     (let load_path = child VECTOR_STORE_DIR doc_name
      in if \<not> exists disk load_path then Inr PyNone
         else if exists disk (load_path @ [''vectors.pkl''])
         then (case read_file disk (load_path @ [''vectors.pkl'']) of
                 Inl e \<Rightarrow> Inl (Exception e)
               | Inr c \<Rightarrow> pickle_load c)
         else Inr PyNone)"

definition load_vectorstore :: "fs \<Rightarrow> string \<Rightarrow> raised + pyobj" where
  "load_vectorstore disk doc_name =
     (case load_vectorstore_try disk doc_name of
        Inl (Exception e) \<Rightarrow> Inr PyNone
      | Inl (SystemExit m) \<Rightarrow> Inl (SystemExit m)
      | Inr r \<Rightarrow> Inr r)"

section \<open>The conversation store (\<^verbatim>\<open>chat_manager.py\<close>)\<close>

text \<open>The store: the path of its durable file and the in-memory log. The lock is left
  out: calls are modelled one at a time.\<close>

record ChatManager =
  storage_path :: path
  history :: history

text \<open>The default of the constructor's \<^verbatim>\<open>storage_path\<close>.\<close>

definition DEFAULT_STORAGE_PATH :: path where
  "DEFAULT_STORAGE_PATH = [''data'', ''chat_history.json'']"

text \<open>\<^verbatim>\<open>json.load\<close> of an open file: the JSON text of a history gives the history; bytes
  that are not JSON text, and a pickle, do not parse. (JSON text of another shape has no
  counterpart among the file contents, as said above.)\<close>

fun json_load :: "file_content \<Rightarrow> exn + history" where
  "json_load (JsonDoc h) = Inr h"
| "json_load (Raw b) = Inl (ValueError ''Expecting value'')"
| "json_load (Pickled v) = Inl (ValueError ''Expecting value'')"
| "json_load (PickleExits m) = Inl (ValueError ''Expecting value'')"

text \<open>\<^verbatim>\<open>_load_history\<close>: the body of the \<^verbatim>\<open>try\<close>, then the method with its handler, which
  empties the log and copies an existing file to the \<^verbatim>\<open>.corrupted\<close> path. The copy is
  not guarded: what it raises leaves the method.\<close>

definition load_history_try :: "fs \<Rightarrow> path \<Rightarrow> exn + history" where
  "load_history_try disk sp =
     (if exists disk sp
      then (case read_file disk sp of Inl e \<Rightarrow> Inl e | Inr c \<Rightarrow> json_load c)
      else Inr [])"

definition load_history :: "ChatManager \<Rightarrow> fs \<Rightarrow> exn + (ChatManager \<times> fs)" where
  "load_history self disk =
     (case load_history_try disk (storage_path self) of
        Inr h \<Rightarrow> Inr (self\<lparr>history := h\<rparr>, disk)
      | Inl e \<Rightarrow>
          (if exists disk (storage_path self)
           then (case with_suffix (storage_path self) ''.corrupted'' of
                   Inl e' \<Rightarrow> Inl e'
                 | Inr backup_path \<Rightarrow>
                     (case copy2 disk (storage_path self) backup_path of
                        Inl e' \<Rightarrow> Inl e'
                      | Inr disk' \<Rightarrow> Inr (self\<lparr>history := []\<rparr>, disk')))
           else Inr (self\<lparr>history := []\<rparr>, disk)))"

text \<open>\<^verbatim>\<open>__init__\<close>: an empty log, the parent directory made, the history loaded.\<close>

definition ChatManager_init :: "path \<Rightarrow> fs \<Rightarrow> exn + (ChatManager \<times> fs)" where
  "ChatManager_init sp disk =
     (case mkdir_parents disk (butlast sp) of
        Inl e \<Rightarrow> Inl e
      | Inr disk' \<Rightarrow> load_history \<lparr>storage_path = sp, history = []\<rparr> disk')"

text \<open>
  \<^verbatim>\<open>_save\<close>: write the whole log to the \<^verbatim>\<open>.tmp\<close> path, then rename it over the storage
  file. The handler removes the temporary file if it exists and raises \<^verbatim>\<open>RuntimeError\<close>.
  The result is the exception raised, if any, and the file system left behind.
\<close>

definition save_cleanup :: "fs \<Rightarrow> path \<Rightarrow> exn \<Rightarrow> exn option \<times> fs" where
  "save_cleanup disk temp_path e =
     (if exists disk temp_path
      then (case unlink disk temp_path of
              Inl e' \<Rightarrow> (Some e', disk)
            | Inr disk' \<Rightarrow> (Some (RuntimeError (''Failed to save chat history: '' @ str e)), disk'))
      else (Some (RuntimeError (''Failed to save chat history: '' @ str e)), disk))"

definition save :: "ChatManager \<Rightarrow> fs \<Rightarrow> exn option \<times> fs" where
  "save self disk =
     (case with_suffix (storage_path self) ''.tmp'' of
        Inl e \<Rightarrow> (Some (NameError ''local variable temp_path referenced before assignment''), disk)
      | Inr temp_path \<Rightarrow>
          (case write_file disk temp_path (JsonDoc (history self)) of
             Inl e \<Rightarrow> save_cleanup disk temp_path e
           | Inr disk1 \<Rightarrow>
               (case replace disk1 temp_path (storage_path self) of
                  Inl e \<Rightarrow> save_cleanup disk1 temp_path e
                | Inr disk2 \<Rightarrow> (None, disk2))))"

text \<open>\<^verbatim>\<open>_create_backup\<close>: copy the storage file to \<^verbatim>\<open>.backup_<timestamp>\<close>; every failure
  is swallowed. \<open>ts\<close> is the formatted clock reading.\<close>

definition create_backup :: "ChatManager \<Rightarrow> fs \<Rightarrow> string \<Rightarrow> fs" where
  "create_backup self disk ts =
     (if exists disk (storage_path self)
      then (case with_suffix (storage_path self) (''.backup_'' @ ts) of
              Inl e \<Rightarrow> disk
            | Inr backup_path \<Rightarrow>
                (case copy2 disk (storage_path self) backup_path of
                   Inl e \<Rightarrow> disk
                 | Inr disk' \<Rightarrow> disk'))
      else disk)"

text \<open>\<^verbatim>\<open>clear_history\<close>: back up, drop the one entry (or all for \<^verbatim>\<open>None\<close>), save. The log
  is changed in memory before the save, so it stays changed when the save raises.\<close>

definition clear_history ::
  "ChatManager \<Rightarrow> fs \<Rightarrow> string option \<Rightarrow> string \<Rightarrow> exn option \<times> ChatManager \<times> fs" where
  "clear_history self disk pdf_name ts =
     (let disk1 = create_backup self disk ts;
          self' = (case pdf_name of
                     None \<Rightarrow> self\<lparr>history := []\<rparr>
                   | Some n \<Rightarrow>
                       (if map_of (history self) n \<noteq> None
                        then self\<lparr>history := AList.delete n (history self)\<rparr> else self))
      in case save self' disk1 of
           (None, disk2) \<Rightarrow> (None, self', disk2)
         | (Some e, disk2) \<Rightarrow>
             (Some (RuntimeError (''Failed to clear history: '' @ str e)), self', disk2))"

text \<open>\<^verbatim>\<open>add_message\<close>: \<open>now\<close> is the clock reading in ISO format.\<close>

definition add_message ::
  "ChatManager \<Rightarrow> fs \<Rightarrow> string \<Rightarrow> string \<Rightarrow> string \<Rightarrow> string \<Rightarrow> json option
     \<Rightarrow> exn option \<times> ChatManager \<times> fs" where
  "add_message self disk now pdf_name rl cnt md =
     (let entry = (case map_of (history self) pdf_name of
                     None \<Rightarrow> \<lparr>messages = [], created_at = now, updated_at = now\<rparr>
                   | Some cd \<Rightarrow> cd);
          msg = \<lparr>role = rl, content = cnt, timestamp = now,
                 metadata = (case md of None \<Rightarrow> JObj [] | Some m \<Rightarrow> m)\<rparr>;
          self' = self\<lparr>history := AList.update pdf_name
                    (entry\<lparr>messages := messages entry @ [msg], updated_at := now\<rparr>) (history self)\<rparr>
      in case save self' disk of
           (None, disk') \<Rightarrow> (None, self', disk')
         | (Some e, disk') \<Rightarrow> (Some (RuntimeError (''Failed to add message: '' @ str e)), self', disk'))"

text \<open>\<^verbatim>\<open>str.lower\<close> (a character is a code point up to U+00FF: the capital letters of
  ASCII, and those of Latin-1 from U+00C0 to U+00DE without the multiplication sign),
  \<^verbatim>\<open>str.replace('"', '""')\<close> and \<^verbatim>\<open>"\n".join\<close>.\<close>

definition lower_char :: "char \<Rightarrow> char" where
  "lower_char c =
     (case map_of (zip ''ABCDEFGHIJKLMNOPQRSTUVWXYZ'' ''abcdefghijklmnopqrstuvwxyz'') c of
        Some l \<Rightarrow> l
      | None \<Rightarrow>
          (if (0xC0 :: nat) \<le> of_char c \<and> of_char c \<le> (0xDE :: nat) \<and> of_char c \<noteq> (0xD7 :: nat)
           then char_of (of_char c + (0x20 :: nat)) else c))"

definition lower :: "string \<Rightarrow> string" where
  "lower s = map lower_char s"

definition double_quotes :: "string \<Rightarrow> string" where
  "double_quotes s = concat (map (\<lambda>c. if c = CHR 0x22 then [CHR 0x22, CHR 0x22] else [c]) s)"

fun join :: "string \<Rightarrow> string list \<Rightarrow> string" where
  "join sep [] = []"
| "join sep [x] = x"
| "join sep (x # y # rest) = x @ sep @ join sep (y # rest)"

text \<open>One CSV row: role, content with its quotes doubled, timestamp, each in quotes.\<close>

definition csv_line :: "message \<Rightarrow> string" where
  "csv_line msg =
     [CHR 0x22] @ role msg @ [CHR 0x22] @ '','' @
     [CHR 0x22] @ double_quotes (content msg) @ [CHR 0x22] @ '','' @
     [CHR 0x22] @ timestamp msg @ [CHR 0x22]"

text \<open>
  \<^verbatim>\<open>export_chat\<close>: \<open>json_dumps\<close> stands for \<^verbatim>\<open>json.dumps(chat_data, indent=2)\<close> of the
  standard library. The body raises \<^verbatim>\<open>ValueError\<close> for a format that is neither
  \<^verbatim>\<open>json\<close> nor \<^verbatim>\<open>csv\<close>; the method catches every exception of its body and returns the
  text \<^verbatim>\<open>Export error: ...\<close> instead.
\<close>

definition export_chat_try ::
  "(chat_data \<Rightarrow> exn + string) \<Rightarrow> ChatManager \<Rightarrow> string \<Rightarrow> string \<Rightarrow> exn + string" where
  "export_chat_try json_dumps self pdf_name format =
     (case map_of (history self) pdf_name of
        None \<Rightarrow> Inr ''No chat history found''
      | Some chat_data \<Rightarrow>
          (if lower format = ''json'' then json_dumps chat_data
           else if lower format = ''csv''
           then Inr (join [CHR 0x0A] (''Role,Content,Timestamp'' # map csv_line (messages chat_data)))
           else Inl (ValueError (''Unsupported format: '' @ format))))"

definition export_chat ::
  "(chat_data \<Rightarrow> exn + string) \<Rightarrow> ChatManager \<Rightarrow> string \<Rightarrow> string \<Rightarrow> exn + string" where
  "export_chat json_dumps self pdf_name format =
     (case export_chat_try json_dumps self pdf_name format of
        Inl e \<Rightarrow> Inr (''Export error: '' @ str e)
      | Inr s \<Rightarrow> Inr s)"

section \<open>Helpers (\<^verbatim>\<open>utils.py\<close>)\<close>

text \<open>Whitespace as \<^verbatim>\<open>str.isspace\<close>, \<^verbatim>\<open>str.strip\<close> and the pattern \<^verbatim>\<open>\s\<close> see it among
  the code points up to U+00FF, and the characters \<^verbatim>\<open>sanitize_filename\<close> keeps.\<close>

definition is_space :: "char \<Rightarrow> bool" where
  "is_space c \<longleftrightarrow>
     c \<in> set [CHR '' '', CHR 0x09, CHR 0x0A, CHR 0x0B, CHR 0x0C, CHR 0x0D,
               CHR 0x1C, CHR 0x1D, CHR 0x1E, CHR 0x1F, CHR 0x85, CHR 0xA0]"

definition is_kept :: "char \<Rightarrow> bool" where
  "is_kept c \<longleftrightarrow>
     c \<in> set ''abcdefghijklmnopqrstuvwxyzABCDEFGHIJKLMNOPQRSTUVWXYZ0123456789-_'' \<or> is_space c"

text \<open>\<^verbatim>\<open>os.path.splitext\<close>: the extension starts at the last dot of the last component,
  if some character other than a dot stands before it in that component.\<close>

definition splitext :: "string \<Rightarrow> string \<times> string" where
  "splitext p =
     (let base = rev (takeWhile (\<lambda>c. c \<noteq> CHR ''/'') (rev p));
          ext = after_dot base;
          front = take (length base - length ext - 1) base
      in if length ext < length base \<and> \<not> list_all (\<lambda>c. c = CHR ''.'') front
         then (take (length p - length ext - 1) p, CHR ''.'' # ext)
         else (p, []))"

text \<open>\<^verbatim>\<open>re.sub(r'\s+', ' ', s)\<close>: each run of whitespace becomes one space; the flag says
  whether the previous character was whitespace.\<close>

fun collapse_spaces :: "bool \<Rightarrow> string \<Rightarrow> string" where
  "collapse_spaces in_run [] = []"
| "collapse_spaces in_run (c # cs) =
     (if is_space c then (if in_run then collapse_spaces True cs else CHR '' '' # collapse_spaces True cs)
      else c # collapse_spaces False cs)"

definition strip :: "string \<Rightarrow> string" where
  "strip s = rev (dropWhile is_space (rev (dropWhile is_space s)))"

text \<open>\<^verbatim>\<open>sanitize_filename\<close>. Its handler (a timestamped fallback name) cannot be reached
  with a string argument and is left out.\<close>

definition sanitize_filename :: "string \<Rightarrow> string" where
  "sanitize_filename filename =
     (case splitext filename of
        (name, ext) \<Rightarrow>
          take 100 (map (\<lambda>c. if c = CHR '' '' then CHR ''_'' else c)
                      (strip (collapse_spaces False (filter is_kept name)))) @ ext)"

section \<open>Loading and chunking documents (\<^verbatim>\<open>vector_store.py\<close>)\<close>

text \<open>
  What the engine gets from outside the repository: PyPDF2 (the page texts of a PDF),
  the codecs (a decoded text, or nothing for \<^verbatim>\<open>UnicodeDecodeError\<close>), python-docx (the
  paragraphs, and the tables as rows of cells), the langchain text splitter, the LLM
  handler's \<^verbatim>\<open>summarize_pdf\<close>, and whether \<^verbatim>\<open>pickle.dump\<close> raises while writing an
  index (see \<open>save_vectorstore\<close>). Each of the others may raise.
\<close>

record collaborators =
  pdf_pages :: "file_content \<Rightarrow> exn + string list"
  decode_text :: "string \<Rightarrow> file_content \<Rightarrow> string option"
  docx_document :: "file_content \<Rightarrow> exn + (string list \<times> string list list list)"
  DOCX_AVAILABLE :: bool
  splitter_split_text :: "string \<Rightarrow> exn + string list"
  summarize_pdf :: "string \<Rightarrow> exn + string"
  pickle_dump_error :: "vectorstore \<Rightarrow> (exn \<times> string) option"

definition load_pdf :: "collaborators \<Rightarrow> fs \<Rightarrow> path \<Rightarrow> exn + string" where
  "load_pdf lib disk file_path =
     (case read_file disk file_path of
        Inl e \<Rightarrow> Inl e
      | Inr c \<Rightarrow>
          (case pdf_pages lib c of
             Inl e \<Rightarrow> Inl e
           | Inr pages \<Rightarrow>
               (let text = concat (map (\<lambda>page. page @ [CHR 0x0A]) pages)
                in if strip text = [] then Inl (ValueError ''No text found in PDF'') else Inr text)))"

fun load_text_encodings :: "collaborators \<Rightarrow> file_content \<Rightarrow> string list \<Rightarrow> exn + string" where
  "load_text_encodings lib c [] = Inl (ValueError ''Could not decode text file with any encoding'')"
| "load_text_encodings lib c (encoding # rest) =
     (case decode_text lib encoding c of
        None \<Rightarrow> load_text_encodings lib c rest
      | Some text \<Rightarrow>
          (if strip text = [] then Inl (ValueError ''No text found in file'') else Inr text))"

definition load_text :: "collaborators \<Rightarrow> fs \<Rightarrow> path \<Rightarrow> exn + string" where
  "load_text lib disk file_path =
     (case read_file disk file_path of
        Inl e \<Rightarrow> Inl e
      | Inr c \<Rightarrow> load_text_encodings lib c [''utf-8'', ''utf-8-sig'', ''latin-1'', ''cp1252''])"

definition load_docx :: "collaborators \<Rightarrow> fs \<Rightarrow> path \<Rightarrow> exn + string" where
  "load_docx lib disk file_path =
     (if \<not> DOCX_AVAILABLE lib
      then Inl (ValueError ''python-docx not installed. Run: pip install python-docx'')
      else (case read_file disk file_path of
              Inl e \<Rightarrow> Inl e
            | Inr c \<Rightarrow>
                (case docx_document lib c of
                   Inl e \<Rightarrow> Inl e
                 | Inr (paragraphs, tables) \<Rightarrow>
                     (let text = concat (map (\<lambda>p. p @ [CHR 0x0A]) paragraphs) @
                                 concat (map (\<lambda>table. concat (map (\<lambda>row.
                                   concat (map (\<lambda>cell. cell @ '' '') row) @ [CHR 0x0A]) table)) tables)
                      in if strip text = [] then Inl (ValueError ''No text found in DOCX file'')
                         else Inr text))))"

definition path_str :: "path \<Rightarrow> string" where
  "path_str p = (if p = [] then ''.'' else join ''/'' p)"

definition path_suffix :: "path \<Rightarrow> string" where
  "path_suffix p = (if p = [] then [] else suffix (last p))"

definition load_document :: "collaborators \<Rightarrow> fs \<Rightarrow> path \<Rightarrow> exn + string" where
  "load_document lib disk file_path =
     (let file_extension = lower (path_suffix file_path);
          r = (if file_extension = ''.pdf'' then load_pdf lib disk file_path
               else if file_extension \<in> set [''.txt'', ''.md''] then load_text lib disk file_path
               else if file_extension = ''.docx'' then load_docx lib disk file_path
               else Inl (ValueError (''Unsupported file format: '' @ file_extension)))
      in case r of
           Inl e \<Rightarrow> Inl (RuntimeError (''Failed to load document '' @ path_str file_path @ '': '' @ str e))
         | Inr text \<Rightarrow> Inr text)"

definition split_text :: "collaborators \<Rightarrow> string \<Rightarrow> exn + string list" where
  "split_text lib text =
     (case (case splitter_split_text lib text of
              Inl e \<Rightarrow> Inl e
            | Inr chunks \<Rightarrow>
                (if chunks = [] then Inl (ValueError ''No chunks created from text'') else Inr chunks)) of
        Inl e \<Rightarrow> Inl (RuntimeError (''Failed to split text: '' @ str e))
      | Inr chunks \<Rightarrow> Inr chunks)"

text \<open>The \<^verbatim>\<open>DocumentVectorStore\<close> object: its embeddings and the vectors and texts of the
  last index it built.\<close>

record 'v DocumentVectorStore =
  embeddings :: "'v LightweightEmbeddings"
  store_vectors :: "matrix option"
  store_texts :: "string list option"

definition create_embeddings ::
  "'v DocumentVectorStore \<Rightarrow> string list \<Rightarrow> (exn + vectorstore) \<times> 'v DocumentVectorStore" where
  "create_embeddings self chunks =
     (case embed_documents (embeddings self) chunks of
        (Inl e, emb) \<Rightarrow>
          (Inl (RuntimeError (''Failed to create embeddings: '' @ str e)), self\<lparr>embeddings := emb\<rparr>)
      | (Inr m, emb) \<Rightarrow>
          (Inr \<lparr>vectors = m, texts = chunks\<rparr>,
           self\<lparr>embeddings := emb, store_vectors := Some m, store_texts := Some chunks\<rparr>))"

section \<open>The retrieval engine (\<^verbatim>\<open>rag_engine.py\<close>)\<close>

text \<open>The engine with what it owns: the vector store object, the conversation store,
  and the disk they share.\<close>

record 'v RAGEngine =
  filesystem :: fs
  vector_store :: "'v DocumentVectorStore"
  chat_manager :: ChatManager

text \<open>The dictionary \<^verbatim>\<open>process_document\<close> returns: the success one (summary, page
  count, document name, number of chunks), or the error one (\<^verbatim>\<open>status = "error"\<close>, the
  message, no summary, page count 0).\<close>

datatype ingest_result =
    StatusSuccess string nat string nat
  | StatusError string

text \<open>\<^verbatim>\<open>content.count('\n\n')\<close>: occurrences that do not overlap.\<close>

fun count_blank_lines :: "string \<Rightarrow> nat" where
  "count_blank_lines (a # b # rest) =
     (if a = CHR 0x0A \<and> b = CHR 0x0A then Suc (count_blank_lines rest)
      else count_blank_lines (b # rest))"
| "count_blank_lines s = 0"

text \<open>\<^verbatim>\<open>_get_document_pages\<close>: every failure gives 1.\<close>

definition get_document_pages :: "collaborators \<Rightarrow> fs \<Rightarrow> path \<Rightarrow> nat" where
  "get_document_pages lib disk doc_path =
     (let file_extension = lower (path_suffix doc_path)
      in case read_file disk doc_path of
           Inl e \<Rightarrow> 1
         | Inr c \<Rightarrow>
             (if file_extension = ''.pdf''
              then (case pdf_pages lib c of Inl e \<Rightarrow> 1 | Inr pages \<Rightarrow> length pages)
              else if file_extension \<in> set [''.txt'', ''.md'']
              then (case decode_text lib ''utf-8'' c of
                      None \<Rightarrow> 1
                    | Some text \<Rightarrow> max 1 (count_blank_lines text + 1))
              else if file_extension = ''.docx''
              then (if \<not> DOCX_AVAILABLE lib then 1
                    else (case docx_document lib c of
                            Inl e \<Rightarrow> 1
                          | Inr (paragraphs, tables) \<Rightarrow> max 1 (length paragraphs div 10)))
              else 1))"

text \<open>\<^verbatim>\<open>Path(safe_filename).stem\<close>: the name \<^verbatim>\<open>"."\<close> is the empty path.\<close>

definition doc_name_of :: "string \<Rightarrow> string" where
  "doc_name_of safe_filename = (if safe_filename = ''.'' then [] else stem safe_filename)"

text \<open>
  The body of the \<^verbatim>\<open>try\<close> in \<^verbatim>\<open>process_document\<close>, step by step, in two parts;
  \<open>upload\<close> is what \<^verbatim>\<open>file.read()\<close> gives. The first part, \<open>process_document_build\<close>, runs from the
  sanitizing of the name to \<^verbatim>\<open>create_embeddings\<close>: opening the staged file for writing
  creates it (empty) before the upload is read. It gives the text, the page count, the
  chunks and the index built, or the exception raised, together with the engine as the
  step that raised left it.
\<close>

definition process_document_build ::
  "collaborators \<Rightarrow> 'v RAGEngine \<Rightarrow> exn + string \<Rightarrow> string
     \<Rightarrow> (exn + (string \<times> nat \<times> string list \<times> vectorstore)) \<times> 'v RAGEngine" where
  "process_document_build lib self upload filename =
     (let safe_filename = sanitize_filename filename;
          doc_path = child PDF_UPLOAD_DIR safe_filename
      in case write_file (filesystem self) doc_path (Raw []) of
           Inl e \<Rightarrow> (Inl e, self)
         | Inr disk1 \<Rightarrow>
         (case upload of
            Inl e \<Rightarrow> (Inl e, self\<lparr>filesystem := disk1\<rparr>)
          | Inr bytes \<Rightarrow>
          (case write_file disk1 doc_path (Raw bytes) of
             Inl e \<Rightarrow> (Inl e, self\<lparr>filesystem := disk1\<rparr>)
           | Inr disk2 \<Rightarrow>
           (case load_document lib disk2 doc_path of
              Inl e \<Rightarrow> (Inl e, self\<lparr>filesystem := disk2\<rparr>)
            | Inr text \<Rightarrow>
            (let pages = get_document_pages lib disk2 doc_path
             in case split_text lib text of
                  Inl e \<Rightarrow> (Inl e, self\<lparr>filesystem := disk2\<rparr>)
                | Inr chunks \<Rightarrow>
                (case create_embeddings (vector_store self) chunks of
                   (Inl e, store) \<Rightarrow> (Inl e, self\<lparr>filesystem := disk2, vector_store := store\<rparr>)
                 | (Inr vs, store) \<Rightarrow>
                     (Inr (text, pages, chunks, vs),
                      self\<lparr>filesystem := disk2, vector_store := store\<rparr>)))))))"

text \<open>
  The second part: \<^verbatim>\<open>save_vectorstore\<close>, then the summary. The result is the success
  dictionary or the exception raised, together with the engine as the step that raised
  left it.
\<close>

definition process_document_try ::
  "collaborators \<Rightarrow> 'v RAGEngine \<Rightarrow> exn + string \<Rightarrow> string \<Rightarrow> (exn + ingest_result) \<times> 'v RAGEngine" where
  "process_document_try lib self upload filename =
     (let doc_name = doc_name_of (sanitize_filename filename)
      in case process_document_build lib self upload filename of
           (Inl e, self1) \<Rightarrow> (Inl e, self1)
         | (Inr (text, pages, chunks, vs), self1) \<Rightarrow>
             (case save_vectorstore (pickle_dump_error lib) (filesystem self1) vs doc_name of
                (Some e, disk3) \<Rightarrow> (Inl e, self1\<lparr>filesystem := disk3\<rparr>)
              | (None, disk3) \<Rightarrow>
                  (case summarize_pdf lib text of
                     Inl e \<Rightarrow> (Inl e, self1\<lparr>filesystem := disk3\<rparr>)
                   | Inr summ \<Rightarrow>
                       (Inr (StatusSuccess summ pages doc_name (length chunks)),
                        self1\<lparr>filesystem := disk3\<rparr>))))"

text \<open>
  \<^verbatim>\<open>process_document\<close>: the handler removes the staged file if the path exists and
  returns the error dictionary. The removal is not guarded: what it raises leaves the
  method.
\<close>

definition process_document ::
  "collaborators \<Rightarrow> 'v RAGEngine \<Rightarrow> exn + string \<Rightarrow> string \<Rightarrow> (exn + ingest_result) \<times> 'v RAGEngine" where
  "process_document lib self upload filename =
     (let doc_path = child PDF_UPLOAD_DIR (sanitize_filename filename)
      in case process_document_try lib self upload filename of
           (Inr r, self') \<Rightarrow> (Inr r, self')
         | (Inl e, self') \<Rightarrow>
             (if exists (filesystem self') doc_path
              then (case unlink (filesystem self') doc_path of
                      Inl e' \<Rightarrow> (Inl e', self')
                    | Inr disk' \<Rightarrow> (Inr (StatusError (str e)), self'\<lparr>filesystem := disk'\<rparr>))
              else (Inr (StatusError (str e)), self')))"

text \<open>
  The pattern of \<^verbatim>\<open>Path.glob\<close> against one name, as \<^verbatim>\<open>fnmatch.translate\<close> reads it:
  \<^verbatim>\<open>*\<close> stands for any run of characters, \<^verbatim>\<open>?\<close> for one, \<^verbatim>\<open>[...]\<close> for one character
  of a class, and a \<^verbatim>\<open>[\<close> that no \<^verbatim>\<open>]\<close> closes for itself. An exclamation mark right
  after the opening bracket does not close the class, and neither does a \<^verbatim>\<open>]\<close> that comes
  first. \<open>bracket_end\<close> is the position of the closing bracket in the text after the
  opening one.
\<close>

definition bracket_end :: "string \<Rightarrow> nat option" where
  "bracket_end ps =
     (let j1 = (if ps \<noteq> [] \<and> hd ps = CHR ''!'' then 1 else 0);
          j2 = (if j1 < length ps \<and> ps ! j1 = CHR '']'' then j1 + 1 else j1);
          rest = drop j2 ps
      in if CHR '']'' \<in> set rest
         then Some (j2 + length (takeWhile (\<lambda>c. c \<noteq> CHR '']'') rest)) else None)"

text \<open>
  The text of a class that holds a hyphen is cut into chunks at the hyphens that stand
  for a range: the last character of a chunk and the first of the next are the ends of a
  range. A hyphen is not a range hyphen when it is the first character of the class (after
  the exclamation mark, if any) or one of the two characters after a range hyphen;
  \<open>skip\<close> counts the characters still to pass over, \<open>cur\<close> is the chunk being read,
  reversed. A range hyphen at the very end stands for itself.
\<close>

fun range_chunks :: "nat \<Rightarrow> string \<Rightarrow> string \<Rightarrow> string list" where
  "range_chunks skip cur [] = [rev cur]"
| "range_chunks skip cur (c # cs) =
     (if c = CHR ''-'' \<and> skip = 0 then rev cur # range_chunks 2 [] cs
      else range_chunks (skip - 1) (c # cur) cs)"

definition fix_last :: "string list \<Rightarrow> string list" where
  "fix_last chunks =
     (if 2 \<le> length chunks \<and> last chunks = []
      then butlast (butlast chunks) @ [last (butlast chunks) @ ''-'']
      else chunks)"

text \<open>A range whose first end comes after its last is dropped, both ends with it, from
  the last range to the first.\<close>

fun merge_ranges :: "string list \<Rightarrow> string list" where
  "merge_ranges [] = []"
| "merge_ranges (c # rest) =
     (case merge_ranges rest of
        [] \<Rightarrow> [c]
      | d # ds \<Rightarrow>
          (if c \<noteq> [] \<and> d \<noteq> [] \<and> (of_char (hd d) :: nat) < of_char (last c)
           then (butlast c @ tl d) # ds
           else c # d # ds))"

text \<open>Whether a character is in the chunks: it is one of the characters that are not the
  end of a range, or lies within a range.\<close>

fun in_chunks :: "char \<Rightarrow> string list \<Rightarrow> bool" where
  "in_chunks c [] = False"
| "in_chunks c [x] = (c \<in> set x)"
| "in_chunks c (x # y # rest) =
     (if x = [] \<or> y = [] then c = CHR ''-'' \<or> in_chunks c (y # rest)
      else c \<in> set (butlast x)
           \<or> ((of_char (last x) :: nat) \<le> of_char c \<and> (of_char c :: nat) \<le> of_char (hd y))
           \<or> in_chunks c (tl y # rest))"

text \<open>Whether a character is in the class with the text \<open>stuff\<close>: an exclamation mark
  at the front of what is left after the empty ranges are dropped negates the class.\<close>

definition class_match :: "string \<Rightarrow> char \<Rightarrow> bool" where
  "class_match stuff c =
     (let chunks = (if CHR ''-'' \<notin> set stuff then [stuff]
                    else merge_ranges (fix_last (range_chunks
                           (if stuff \<noteq> [] \<and> hd stuff = CHR ''!'' then 2 else 1) [] stuff)));
          negated = (chunks \<noteq> [] \<and> hd chunks \<noteq> [] \<and> hd (hd chunks) = CHR ''!'')
      in if negated then \<not> in_chunks c (tl (hd chunks) # tl chunks) else in_chunks c chunks)"

datatype glob_item = AnyRun | AnyChar | Lit char | Class string

function parse_glob :: "string \<Rightarrow> glob_item list" where
  "parse_glob [] = []"
| "parse_glob (p # ps) =
     (if p = CHR ''*'' then AnyRun # parse_glob ps
      else if p = CHR ''?'' then AnyChar # parse_glob ps
      else if p = CHR ''[''
      then (case bracket_end ps of
              None \<Rightarrow> Lit p # parse_glob ps
            | Some j \<Rightarrow> Class (take j ps) # parse_glob (drop (Suc j) ps))
      else Lit p # parse_glob ps)"
  by pat_completeness auto
termination
  by (relation "measure length") auto

fun match_items :: "glob_item list \<Rightarrow> string \<Rightarrow> bool" where
  "match_items [] s = (s = [])"
| "match_items (AnyRun # items) [] = match_items items []"
| "match_items (AnyRun # items) (c # cs) =
     (match_items items (c # cs) \<or> match_items (AnyRun # items) cs)"
| "match_items (AnyChar # items) [] = False"
| "match_items (AnyChar # items) (c # cs) = match_items items cs"
| "match_items (Lit p # items) [] = False"
| "match_items (Lit p # items) (c # cs) = (p = c \<and> match_items items cs)"
| "match_items (Class stuff # items) [] = False"
| "match_items (Class stuff # items) (c # cs) = (class_match stuff c \<and> match_items items cs)"

definition fnmatch :: "string \<Rightarrow> string \<Rightarrow> bool" where
  "fnmatch pat s = match_items (parse_glob pat) s"

text \<open>\<^verbatim>\<open>Path(dir).glob(pattern)\<close> for a pattern of one component: the entries of the
  directory whose names match.\<close>

definition glob :: "fs \<Rightarrow> path \<Rightarrow> string \<Rightarrow> path list" where
  "glob d dir pattern = map (\<lambda>name. dir @ [name]) (filter (fnmatch pattern) (iterdir d dir))"

text \<open>The entries \<^verbatim>\<open>glob\<close> yields, as a predicate on an entry of the disk.\<close>

definition in_glob :: "path \<Rightarrow> string \<Rightarrow> path \<times> node \<Rightarrow> bool" where
  "in_glob dir pat e \<longleftrightarrow> fst e \<noteq> [] \<and> butlast (fst e) = dir \<and> fnmatch pat (last (fst e))"

text \<open>The loop \<^verbatim>\<open>for pdf_file in pdf_files: pdf_file.unlink()\<close>: it stops at the first
  path that cannot be unlinked, the ones before it being gone.\<close>

fun unlink_each :: "fs \<Rightarrow> path list \<Rightarrow> exn option \<times> fs" where
  "unlink_each d [] = (None, d)"
| "unlink_each d (p # ps) =
     (case unlink d p of Inl e \<Rightarrow> (Some e, d) | Inr d' \<Rightarrow> unlink_each d' ps)"

text \<open>\<^verbatim>\<open>delete_pdf\<close>: the body of the \<^verbatim>\<open>try\<close>, then the method, which answers \<^verbatim>\<open>True\<close>
  when the body did not raise and \<^verbatim>\<open>False\<close> when it did. \<open>ts\<close> is the clock reading
  the backup of the conversation file is named after.\<close>

definition delete_pdf_try :: "'v RAGEngine \<Rightarrow> string \<Rightarrow> string \<Rightarrow> exn option \<times> 'v RAGEngine" where
  "delete_pdf_try self name ts =
     (case unlink_each (filesystem self) (glob (filesystem self) PDF_UPLOAD_DIR (name @ ''.*'')) of
        (Some e, disk1) \<Rightarrow> (Some e, self\<lparr>filesystem := disk1\<rparr>)
      | (None, disk1) \<Rightarrow>
          (let vectorstore_path = child VECTOR_STORE_DIR name
           in case (if exists disk1 vectorstore_path then rmtree disk1 vectorstore_path else Inr disk1) of
                Inl e \<Rightarrow> (Some e, self\<lparr>filesystem := disk1\<rparr>)
              | Inr disk2 \<Rightarrow>
                  (case clear_history (chat_manager self) disk2 (Some name) ts of
                     (r, cm, disk3) \<Rightarrow> (r, self\<lparr>filesystem := disk3, chat_manager := cm\<rparr>))))"

definition delete_pdf :: "'v RAGEngine \<Rightarrow> string \<Rightarrow> string \<Rightarrow> bool \<times> 'v RAGEngine" where
  "delete_pdf self name ts =
     (case delete_pdf_try self name ts of
        (None, self') \<Rightarrow> (True, self')
      | (Some e, self') \<Rightarrow> (False, self'))"

text \<open>
  A document name for which the paths above are the ones the program uses is a single
  path component: it holds no separator and no NUL character and is not \<^verbatim>\<open>".."\<close>. For
  \<^verbatim>\<open>glob\<close> the name must also be free of two adjacent asterisks, which \<^verbatim>\<open>Path.glob\<close>
  refuses inside a component before Python 3.13 and reads as one asterisk from then on.
\<close>

definition single_component :: "string \<Rightarrow> bool" where
  "single_component name \<longleftrightarrow> CHR ''/'' \<notin> set name \<and> CHR 0x00 \<notin> set name \<and> name \<noteq> ''..''"

fun double_star :: "string \<Rightarrow> bool" where
  "double_star (a # b # rest) = ((a = CHR ''*'' \<and> b = CHR ''*'') \<or> double_star (b # rest))"
| "double_star s = False"

definition plain_name :: "string \<Rightarrow> bool" where
  "plain_name name \<longleftrightarrow> single_component name \<and> \<not> double_star name"

section \<open>Collaborators and a disk for running the model\<close>

text \<open>
  Stand-ins for what lies outside the repository, used to run the model on concrete
  inputs: the text codecs decode raw bytes to themselves, no PDF or DOCX reader is
  present, the splitter returns the text as one chunk, and the LLM handler either
  answers or is down, and \<^verbatim>\<open>pickle.dump\<close> either completes or finds the disk full.
  \<open>json_dumps_stub\<close> stands for \<^verbatim>\<open>json.dumps\<close> where its text does not matter.
\<close>

definition summarize_ok :: "string \<Rightarrow> exn + string" where
  "summarize_ok text = Inr ''summary''"

definition summarize_down :: "string \<Rightarrow> exn + string" where
  "summarize_down text = Inl (RuntimeError ''LLM unavailable'')"

fun decode_raw :: "string \<Rightarrow> file_content \<Rightarrow> string option" where
  "decode_raw encoding (Raw b) = Some b"
| "decode_raw encoding (JsonDoc h) = None"
| "decode_raw encoding (Pickled v) = None"
| "decode_raw encoding (PickleExits m) = None"

definition dump_ok :: "vectorstore \<Rightarrow> (exn \<times> string) option" where
  "dump_ok vs = None"

definition dump_disk_full :: "vectorstore \<Rightarrow> (exn \<times> string) option" where
  "dump_disk_full vs = Some (OSError ''No space left on device'', [CHR 0x80, CHR 0x04])"

definition no_pdf_reader :: "file_content \<Rightarrow> exn + string list" where
  "no_pdf_reader c = Inl (ValueError ''EOF marker not found'')"

definition no_docx_reader :: "file_content \<Rightarrow> exn + (string list \<times> string list list list)" where
  "no_docx_reader c = Inl (ValueError ''File is not a zip file'')"

definition one_chunk :: "string \<Rightarrow> exn + string list" where
  "one_chunk text = Inr [text]"

definition demo_collaborators ::
  "(string \<Rightarrow> exn + string) \<Rightarrow> (vectorstore \<Rightarrow> (exn \<times> string) option) \<Rightarrow> collaborators" where
  "demo_collaborators summarize dump_error =
     \<lparr>pdf_pages = no_pdf_reader, decode_text = decode_raw, docx_document = no_docx_reader,
      DOCX_AVAILABLE = False, splitter_split_text = one_chunk, summarize_pdf = summarize,
      pickle_dump_error = dump_error\<rparr>"

definition json_dumps_stub :: "chat_data \<Rightarrow> exn + string" where
  "json_dumps_stub cd = Inr ''{}''"

text \<open>A log with one message for the document \<^verbatim>\<open>doc\<close>, and an engine whose disk holds
  the two data directories, an index saved earlier for \<^verbatim>\<open>doc\<close>, and the conversation
  file with that log.\<close>

definition demo_history :: history where
  "demo_history =
     [(''doc'', \<lparr>messages = [\<lparr>role = ''user'', content = ''hi'', timestamp = ''t0'', metadata = JObj []\<rparr>],
                created_at = ''t0'', updated_at = ''t0''\<rparr>)]"

definition demo_engine :: "vocabulary RAGEngine" where
  "demo_engine =
     \<lparr>filesystem =
        [([''data''], Dir), ([''data'', ''pdfs''], Dir), ([''data'', ''vectorstore''], Dir),
         ([''data'', ''pdfs'', ''doc.txt''], File (Raw ''old text'')),
         ([''data'', ''vectorstore'', ''doc''], Dir),
         ([''data'', ''vectorstore'', ''doc'', ''vectors.pkl''],
            File (Pickled (PyVectorstore \<lparr>vectors = [[1]], texts = [''old'']\<rparr>))),
         ([''data'', ''chat_history.json''], File (JsonDoc demo_history))],
      vector_store =
        \<lparr>embeddings = LightweightEmbeddings_init word_fit (tfidf_transform words),
         store_vectors = None, store_texts = None\<rparr>,
      chat_manager = \<lparr>storage_path = [''data'', ''chat_history.json''], history = demo_history\<rparr>\<rparr>"

section \<open>Running the model\<close>

text \<open>The square roots that occur when the model is run on the examples below are those
  of 0 and 1.\<close>

lemma sqrt_code [code]: "sqrt x = (if x = 0 then 0 else if x = 1 then 1 else sqrt x)"
  by simp

section \<open>Facts about the vectorizer\<close>

lemma embed_all_fitted:
  assumes "is_fitted self" "learned (vectorizer self) = Some v"
  shows "embed_all self calls = (map (sk_transform (vectorizer self) v) calls, self)"
  using assms by (induction calls) (simp_all add: embed_documents_def transform_def)

lemma first_fit_None_fitted: "first_fit f calls = None \<Longrightarrow> first_fitted f t calls = None"
  by (induction calls) (auto split: sum.splits)

lemma embed_all_unfitted:
  assumes "\<not> is_fitted self"
  shows "fst (embed_all self calls) =
           projected (sk_fit (vectorizer self)) (sk_transform (vectorizer self)) calls
    \<and> is_fitted (snd (embed_all self calls)) =
          (first_fitted (sk_fit (vectorizer self)) (sk_transform (vectorizer self)) calls \<noteq> None)
    \<and> (\<forall>v. first_fitted (sk_fit (vectorizer self)) (sk_transform (vectorizer self)) calls = Some v
          \<longrightarrow> learned (vectorizer (snd (embed_all self calls))) = Some v)"
  using assms
proof (induction calls arbitrary: self)
  case Nil
  then show ?case by simp
next
  case (Cons docs rest)
  let ?f = "sk_fit (vectorizer self)" and ?t = "sk_transform (vectorizer self)"
  show ?case
  proof (cases "?f docs")
    case (Inl e)
    then have step: "embed_documents self docs = (Inl e, self)"
      using Cons.prems by (simp add: embed_documents_def fit_transform_def)
    show ?thesis
      using Cons.IH[OF Cons.prems] Inl step by (cases "embed_all self rest") simp
  next
    case (Inr v)
    show ?thesis
    proof (cases "?t v docs")
      case (Inl e)
      let ?s = "self\<lparr>vectorizer := (vectorizer self)\<lparr>learned := Some v\<rparr>\<rparr>"
      have step: "embed_documents self docs = (Inl e, ?s)"
        using Cons.prems Inr Inl by (simp add: embed_documents_def fit_transform_def)
      have nf: "\<not> is_fitted ?s" using Cons.prems by simp
      show ?thesis
        using Cons.IH[OF nf] Inr Inl step by (cases "embed_all ?s rest") simp
    next
      case m: (Inr m)
      let ?s = "self\<lparr>vectorizer := (vectorizer self)\<lparr>learned := Some v\<rparr>, is_fitted := True\<rparr>"
      have step: "embed_documents self docs = (Inr m, ?s)"
        using Cons.prems Inr m by (simp add: embed_documents_def fit_transform_def)
      have rest: "embed_all ?s rest = (map (sk_transform (vectorizer ?s) v) rest, ?s)"
        by (rule embed_all_fitted) simp_all
      show ?thesis using Inr m step rest by simp
    qed
  qed
qed

lemma count_list_filter: "P t \<Longrightarrow> count_list (filter P xs) t = count_list xs t"
  by (induction xs) auto

lemma tfidf_row_drops:
  "tfidf_row voc (filter (\<lambda>t. t \<in> fst ` set voc) terms) = tfidf_row voc terms"
proof -
  have "count_list (filter (\<lambda>t. t \<in> fst ` set voc) terms) (fst e) = count_list terms (fst e)"
    if "e \<in> set voc" for e
    using that by (intro count_list_filter) simp
  then have "map (\<lambda>(t, w). real (count_list (filter (\<lambda>t. t \<in> fst ` set voc) terms) t) * w) voc =
        map (\<lambda>(t, w). real (count_list terms t) * w) voc"
    by (intro map_cong) (auto simp: case_prod_beta)
  then show ?thesis unfolding tfidf_row_def by (rule arg_cong)
qed

lemma length_normalize: "length (normalize v) = length v"
  by (simp add: normalize_def)

lemma length_tfidf_row: "length (tfidf_row voc terms) = length voc"
  by (simp add: tfidf_row_def length_normalize)

section \<open>Facts about the ranking\<close>

lemma collect_Inr:
  "collect txts sims idxs = Inr rs \<Longrightarrow> rs = map (\<lambda>i. (txts ! i, sims ! i)) idxs"
  by (induction idxs arbitrary: rs) (auto split: if_splits sum.splits)

lemma collect_in_range:
  "\<forall>i \<in> set idxs. i < length txts \<Longrightarrow> collect txts sims idxs = Inr (map (\<lambda>i. (txts ! i, sims ! i)) idxs)"
  by (induction idxs) auto

lemma is_argsort_index_order: "is_argsort argsort_index_order"
  by (simp add: is_argsort_def argsort_index_order_def)

lemma is_argsort_reverse_order: "is_argsort argsort_reverse_order"
  by (simp add: is_argsort_def argsort_reverse_order_def)

lemma mset_argsort: "is_argsort srt \<Longrightarrow> mset (srt xs) = mset [0..<length xs]"
  by (simp add: is_argsort_def)

lemma set_argsort: "is_argsort srt \<Longrightarrow> set (srt xs) = {0..<length xs}"
  using mset_argsort[of srt xs] by (metis mset_eq_setD set_upt)

lemma length_argsort: "is_argsort srt \<Longrightarrow> length (srt xs) = length xs"
  using mset_argsort[of srt xs] by (metis length_upt mset_eq_length minus_nat.diff_0)

lemma sorted_argsort: "is_argsort srt \<Longrightarrow> sorted (map (\<lambda>i. xs ! i) (srt xs))"
  by (simp add: is_argsort_def)

lemma py_take_prefix: "\<exists>m. py_take k xs = take m xs"
  by (auto simp: py_take_def)

lemma py_take_all: "int (length xs) \<le> k \<Longrightarrow> py_take k xs = xs"
  by (simp add: py_take_def)

lemma top_indices_subset:
  assumes "is_argsort srt"
  shows "set (top_indices srt xs k) \<subseteq> {0..<length xs}"
proof -
  obtain m where "top_indices srt xs k = take m (rev (srt xs))"
    using py_take_prefix unfolding top_indices_def by blast
  then show ?thesis using set_take_subset[of m "rev (srt xs)"] by (simp add: set_argsort[OF assms])
qed

lemma top_indices_desc:
  fixes xs :: "real list"
  assumes "is_argsort srt"
  shows "sorted_wrt (\<lambda>a b. b \<le> a) (map (\<lambda>i. xs ! i) (top_indices srt xs k))"
proof -
  have "sorted_wrt (\<lambda>a b. b \<le> a) (rev (map (\<lambda>i. xs ! i) (srt xs)))"
    using sorted_argsort[OF assms, of xs] by (simp add: sorted_wrt_rev)
  then have full: "sorted_wrt (\<lambda>a b. b \<le> a) (map (\<lambda>i. xs ! i) (rev (srt xs)))"
    by (simp add: rev_map)
  obtain m where m: "top_indices srt xs k = take m (rev (srt xs))"
    using py_take_prefix unfolding top_indices_def by blast
  show ?thesis unfolding m take_map[symmetric] using full by (rule sorted_wrt_take)
qed

lemma top_indices_all:
  "is_argsort srt \<Longrightarrow> int (length xs) \<le> k \<Longrightarrow> top_indices srt xs k = rev (srt xs)"
  by (simp add: top_indices_def py_take_all length_argsort)

lemma top_indices_nth:
  assumes "is_argsort srt" "a < length (top_indices srt xs k)"
  shows "top_indices srt xs k ! a = srt xs ! (length xs - 1 - a)"
    and "a < length xs"
proof -
  obtain m where m: "top_indices srt xs k = take m (rev (srt xs))"
    using py_take_prefix unfolding top_indices_def by blast
  from assms(2) have a: "a < m" "a < length (srt xs)" unfolding m by simp_all
  then show "a < length xs" by (simp add: length_argsort[OF assms(1)])
  have "top_indices srt xs k ! a = rev (srt xs) ! a" unfolding m using a by simp
  also have "\<dots> = srt xs ! (length (srt xs) - Suc a)" using a by (simp add: rev_nth)
  finally show "top_indices srt xs k ! a = srt xs ! (length xs - 1 - a)"
    by (simp add: length_argsort[OF assms(1)])
qed

section \<open>Facts about search\<close>

lemma cosine_similarity_length:
  "cosine_similarity q m = Inr sims \<Longrightarrow> length sims = length m"
  by (auto simp: cosine_similarity_def split: if_splits)

lemma search_Inr:
  assumes "search srt emb q vs k = Inr res"
  shows "\<exists>qv sims. embed_query emb q = Inr qv \<and> cosine_similarity qv (vectors vs) = Inr sims
           \<and> res = map (\<lambda>i. (texts vs ! i, sims ! i)) (top_indices srt sims k)"
  using assms
  by (auto simp: search_def search_try_def split: sum.splits dest: collect_Inr)

lemma search_returns:
  assumes "is_argsort srt" "embed_query emb q = Inr qv" "cosine_similarity qv (vectors vs) = Inr sims"
    "length (vectors vs) \<le> length (texts vs)"
  shows "search srt emb q vs k = Inr (map (\<lambda>i. (texts vs ! i, sims ! i)) (top_indices srt sims k))"
proof -
  have "\<forall>i \<in> set (top_indices srt sims k). i < length (texts vs)"
    using top_indices_subset[OF assms(1), of sims k] cosine_similarity_length[OF assms(3)] assms(4) by auto
  then show ?thesis
    using assms(2,3) by (simp add: search_def search_try_def collect_in_range)
qed

lemma mset_all_texts:
  assumes "is_argsort srt" "length txts = length sims"
  shows "mset (map fst (map (\<lambda>i. (txts ! i, sims ! i)) (rev (srt sims)))) = mset txts"
proof -
  have "mset (map (\<lambda>i. txts ! i) (rev (srt sims))) = image_mset (\<lambda>i. txts ! i) (mset (srt sims))"
    by simp
  also have "\<dots> = mset (map (\<lambda>i. txts ! i) [0..<length txts])"
    by (simp add: mset_argsort[OF assms(1)] assms(2))
  also have "\<dots> = mset txts" by (simp add: map_nth)
  finally show ?thesis by (simp add: comp_def)
qed

lemma words_cat_dog: "words ''cat dog'' = [''cat'', ''dog'']" "words ''cat'' = [''cat'']"
  by (simp_all add: words_def)

lemma fitted_demo:
  "snd (embed_documents (LightweightEmbeddings_init word_fit (tfidf_transform words)) [''cat dog'']) =
   \<lparr>vectorizer = \<lparr>sk_fit = word_fit, sk_transform = tfidf_transform words,
                  learned = Some [(''cat'', 1), (''dog'', 1)]\<rparr>, is_fitted = True\<rparr>"
  by (simp add: LightweightEmbeddings_init_def embed_documents_def fit_transform_def word_fit_def
      words_cat_dog tfidf_transform_def)

lemma demo_query:
  "embed_query (snd (embed_documents (LightweightEmbeddings_init word_fit (tfidf_transform words)) [''cat dog'']))
     ''cat'' = Inr [1, 0]"
  by (simp add: fitted_demo embed_query_def transform_def tfidf_transform_def tfidf_row_def words_cat_dog
      normalize_def norm2_def dot_def)

lemma demo_search:
  "search argsort_index_order
      (snd (embed_documents (LightweightEmbeddings_init word_fit (tfidf_transform words)) [''cat dog'']))
      ''cat'' \<lparr>vectors = [[0, 1], [1, 0], [1, 0]], texts = [''zero'', ''one'', ''two'']\<rparr> 2 =
   Inr [(''two'', 1), (''one'', 1)]"
  by (simp add: demo_query search_def search_try_def
      cosine_similarity_def normalize_def norm2_def dot_def top_indices_def py_take_def
      argsort_index_order_def upt_rec)

section \<open>Facts about the file system and the persisted index\<close>

lemma stat_update:
  "p \<noteq> [] \<Longrightarrow> stat (AList.update p n disk) q = (if q = p then Some n else stat disk q)"
  by (simp add: stat_def update_conv')

lemma stat_delete:
  "stat (AList.delete p disk) q = (if q = p \<and> p \<noteq> [] then None else stat disk q)"
  by (auto simp: stat_def delete_conv')

lemma mkdirs_makes_dir:
  "mkdirs disk done cs = Inr disk' \<Longrightarrow> stat disk done = Some Dir \<Longrightarrow> stat disk' (done @ cs) = Some Dir"
proof (induction cs arbitrary: disk "done")
  case Nil
  then show ?case by simp
next
  case (Cons c cs)
  show ?case
  proof (cases "stat disk (done @ [c])")
    case None
    with Cons.prems have "mkdirs (AList.update (done @ [c]) Dir disk) (done @ [c]) cs = Inr disk'"
      by simp
    moreover have "stat (AList.update (done @ [c]) Dir disk) (done @ [c]) = Some Dir"
      by (simp add: stat_update)
    ultimately show ?thesis using Cons.IH by fastforce
  next
    case (Some n)
    with Cons.prems show ?thesis using Cons.IH[of disk "done @ [c]"]
      by (cases n) auto
  qed
qed

lemma mkdir_parents_makes_dir:
  "mkdir_parents disk p = Inr disk' \<Longrightarrow> stat disk' p = Some Dir"
  using mkdirs_makes_dir[of disk "[]" p disk'] by (simp add: mkdir_parents_def stat_def)

lemma mkdirs_succeeds:
  assumes "\<forall>n. \<not> is_file disk (done @ take n cs)"
  shows "\<exists>disk'. mkdirs disk done cs = Inr disk'"
  using assms
proof (induction cs arbitrary: disk "done")
  case Nil
  then show ?case by simp
next
  case (Cons c cs)
  have nf: "\<not> is_file disk (done @ [c])" using Cons.prems[rule_format, of 1] by simp
  have later: "\<not> is_file disk ((done @ [c]) @ take n cs)" for n
    using Cons.prems[rule_format, of "Suc n"] by simp
  show ?case
  proof (cases "stat disk (done @ [c])")
    case None
    have "\<forall>n. \<not> is_file (AList.update (done @ [c]) Dir disk) ((done @ [c]) @ take n cs)"
      using later by (auto simp: is_file_def stat_update split: option.splits node.splits)
    from Cons.IH[OF this] show ?thesis using None by simp
  next
    case (Some n)
    then have "n = Dir" using nf by (cases n) (auto simp: is_file_def)
    then show ?thesis using Some Cons.IH[of disk "done @ [c]"] later by simp
  qed
qed

lemma mkdirs_longer:
  "mkdirs d done cs = Inr d' \<Longrightarrow> length (done @ cs) < length q \<Longrightarrow> stat d' q = stat d q"
proof (induction cs arbitrary: d "done")
  case Nil
  then show ?case by simp
next
  case (Cons c cs)
  show ?case
  proof (cases "stat d (done @ [c])")
    case None
    let ?d1 = "AList.update (done @ [c]) Dir d"
    from None Cons.prems have "mkdirs ?d1 (done @ [c]) cs = Inr d'" by simp
    from Cons.IH[OF this] Cons.prems(2) have "stat d' q = stat ?d1 q" by simp
    moreover have "q \<noteq> done @ [c]" using Cons.prems(2) by auto
    ultimately show ?thesis by (simp add: stat_update)
  next
    case (Some n)
    with Cons.prems show ?thesis using Cons.IH[of d "done @ [c]"] by (cases n) auto
  qed
qed

lemma write_file_stat:
  "write_file disk p c = Inr disk' \<Longrightarrow> stat disk' q = (if q = p then Some (File c) else stat disk q)"
  by (auto simp: write_file_def stat_def update_conv' split: if_splits)

lemma write_file_Inr:
  "write_file d p c = Inr d' \<longleftrightarrow>
     stat d p \<noteq> Some Dir \<and> stat d (butlast p) = Some Dir \<and> d' = AList.update p (File c) d"
  by (auto simp: write_file_def)

lemma child_store_nonempty: "child VECTOR_STORE_DIR doc_name \<noteq> []"
  by (simp add: child_def VECTOR_STORE_DIR_def)

text \<open>What a successful save has done, step by step.\<close>

lemma save_vectorstore_None:
  "save_vectorstore dump disk vs doc_name = (None, disk') \<longleftrightarrow>
     (\<exists>d1. mkdir_parents disk (child VECTOR_STORE_DIR doc_name) = Inr d1 \<and>
        stat d1 (child VECTOR_STORE_DIR doc_name @ [''vectors.pkl'']) \<noteq> Some Dir \<and>
        dump vs = None \<and>
        disk' = AList.update (child VECTOR_STORE_DIR doc_name @ [''vectors.pkl''])
                  (File (Pickled (PyVectorstore vs)))
                  (AList.update (child VECTOR_STORE_DIR doc_name @ [''vectors.pkl'']) (File (Raw [])) d1))"
proof (cases "mkdir_parents disk (child VECTOR_STORE_DIR doc_name)")
  case (Inl e)
  then show ?thesis by (simp add: save_vectorstore_def save_vectorstore_try_def)
next
  case (Inr d1)
  have par: "stat d1 (butlast (child VECTOR_STORE_DIR doc_name @ [''vectors.pkl''])) = Some Dir"
    using mkdir_parents_makes_dir[OF Inr] by simp
  show ?thesis
  proof (cases "stat d1 (child VECTOR_STORE_DIR doc_name @ [''vectors.pkl'']) = Some Dir")
    case True
    then show ?thesis using Inr
      by (simp add: save_vectorstore_def save_vectorstore_try_def write_file_def)
  next
    case False
    then have "write_file d1 (child VECTOR_STORE_DIR doc_name @ [''vectors.pkl'']) (Raw []) =
        Inr (AList.update (child VECTOR_STORE_DIR doc_name @ [''vectors.pkl'']) (File (Raw [])) d1)"
      using par by (simp add: write_file_def)
    then show ?thesis using Inr False
      by (cases "dump vs") (auto simp: save_vectorstore_def save_vectorstore_try_def split: prod.splits)
  qed
qed

lemma save_result_stat:
  assumes "save_vectorstore dump disk vs doc_name = (None, disk')"
  shows "stat disk' (child VECTOR_STORE_DIR doc_name) = Some Dir"
    and "stat disk' (child VECTOR_STORE_DIR doc_name @ [''vectors.pkl'']) =
           Some (File (Pickled (PyVectorstore vs)))"
proof -
  let ?sp = "child VECTOR_STORE_DIR doc_name"
  from assms obtain d1 where mk: "mkdir_parents disk ?sp = Inr d1"
    and d': "disk' = AList.update (?sp @ [''vectors.pkl'']) (File (Pickled (PyVectorstore vs)))
                  (AList.update (?sp @ [''vectors.pkl'']) (File (Raw [])) d1)"
    unfolding save_vectorstore_None by blast
  have "stat d1 ?sp = Some Dir" using mk by (rule mkdir_parents_makes_dir)
  then show "stat disk' ?sp = Some Dir" unfolding d' by (simp add: stat_update)
  show "stat disk' (?sp @ [''vectors.pkl'']) = Some (File (Pickled (PyVectorstore vs)))"
    unfolding d' by (simp add: stat_update)
qed

lemma load_vectorstore_file:
  assumes "stat disk (child VECTOR_STORE_DIR doc_name) = Some n"
    and "stat disk (child VECTOR_STORE_DIR doc_name @ [''vectors.pkl'']) = Some (File c)"
  shows "load_vectorstore disk doc_name =
     (case pickle_load c of
        Inl (Exception e) \<Rightarrow> Inr PyNone
      | Inl (SystemExit m) \<Rightarrow> Inl (SystemExit m)
      | Inr v \<Rightarrow> Inr v)"
  using assms by (simp add: load_vectorstore_def load_vectorstore_try_def exists_def read_file_def)

lemma save_then_load:
  assumes "save_vectorstore dump disk vs doc_name = (None, disk')"
  shows "load_vectorstore disk' doc_name = Inr (PyVectorstore vs)"
  using save_result_stat[OF assms] by (simp add: load_vectorstore_file)

lemma store_prefixes:
  assumes "\<not> is_file disk [''data'']" "\<not> is_file disk VECTOR_STORE_DIR"
    "\<not> is_file disk (child VECTOR_STORE_DIR doc_name)"
  shows "\<not> is_file disk ([] @ take n (child VECTOR_STORE_DIR doc_name))"
proof -
  consider "n = 0" | "n = 1" | "n = 2" | "3 \<le> n" by linarith
  then show ?thesis
  proof cases
    case 1 then show ?thesis by (simp add: is_file_def stat_def)
  next
    case 2 then show ?thesis using assms(1) by (simp add: child_def VECTOR_STORE_DIR_def)
  next
    case 3 then show ?thesis using assms(2)
      by (simp add: child_def VECTOR_STORE_DIR_def numeral_2_eq_2)
  next
    case 4 then show ?thesis using assms(2,3) by (simp add: child_def VECTOR_STORE_DIR_def)
  qed
qed

lemma save_succeeds:
  assumes "\<not> is_file disk [''data'']" "\<not> is_file disk VECTOR_STORE_DIR"
    "\<not> is_file disk (child VECTOR_STORE_DIR doc_name)"
    "\<not> is_dir disk (child VECTOR_STORE_DIR doc_name @ [''vectors.pkl''])"
    "dump vs = None"
  shows "\<exists>disk'. save_vectorstore dump disk vs doc_name = (None, disk')"
proof -
  let ?sp = "child VECTOR_STORE_DIR doc_name"
  have "\<forall>n. \<not> is_file disk ([] @ take n ?sp)" using store_prefixes[OF assms(1,2,3)] by blast
  then obtain d1 where mk: "mkdir_parents disk ?sp = Inr d1"
    unfolding mkdir_parents_def using mkdirs_succeeds by blast
  have "stat d1 (?sp @ [''vectors.pkl'']) = stat disk (?sp @ [''vectors.pkl''])"
    using mk unfolding mkdir_parents_def by (rule mkdirs_longer) simp
  then have "stat d1 (?sp @ [''vectors.pkl'']) \<noteq> Some Dir" using assms(4) by (simp add: is_dir_def)
  then show ?thesis using mk assms(5) unfolding save_vectorstore_None by blast
qed

section \<open>Facts about ingestion\<close>

lemma mkdirs_frame:
  "mkdirs d done cs = Inr d' \<Longrightarrow> stat d' q = stat d q \<or> (stat d q = None \<and> stat d' q = Some Dir)"
proof (induction cs arbitrary: d "done")
  case Nil
  then show ?case by simp
next
  case (Cons c cs)
  show ?case
  proof (cases "stat d (done @ [c])")
    case None
    let ?d1 = "AList.update (done @ [c]) Dir d"
    from None Cons.prems have "mkdirs ?d1 (done @ [c]) cs = Inr d'" by simp
    from Cons.IH[OF this] have "stat d' q = stat ?d1 q \<or> (stat ?d1 q = None \<and> stat d' q = Some Dir)" .
    moreover have "stat ?d1 q = (if q = done @ [c] then Some Dir else stat d q)"
      by (simp add: stat_update)
    ultimately show ?thesis using None by (auto split: if_splits)
  next
    case (Some n)
    with Cons.prems show ?thesis using Cons.IH[of d "done @ [c]"] by (cases n) auto
  qed
qed

lemma mkdir_parents_frame:
  "mkdir_parents d p = Inr d' \<Longrightarrow> stat d' q = stat d q \<or> (stat d q = None \<and> stat d' q = Some Dir)"
  unfolding mkdir_parents_def by (rule mkdirs_frame)

lemma child_upload_nonempty: "child PDF_UPLOAD_DIR name \<noteq> []"
  by (simp add: child_def PDF_UPLOAD_DIR_def)

lemma upload_not_index:
  "child PDF_UPLOAD_DIR x \<noteq> child VECTOR_STORE_DIR n"
  "child PDF_UPLOAD_DIR x \<noteq> child VECTOR_STORE_DIR n @ [''vectors.pkl'']"
  by (auto simp: child_def PDF_UPLOAD_DIR_def VECTOR_STORE_DIR_def)

lemma process_document_build_frame:
  assumes "process_document_build lib self upload filename = (r, s1)"
  shows "chat_manager s1 = chat_manager self"
    and "p \<noteq> child PDF_UPLOAD_DIR (sanitize_filename filename) \<Longrightarrow>
         stat (filesystem s1) p = stat (filesystem self) p"
    and "stat (filesystem self) (child PDF_UPLOAD_DIR (sanitize_filename filename)) \<noteq> Some Dir \<Longrightarrow>
         stat (filesystem s1) (child PDF_UPLOAD_DIR (sanitize_filename filename)) \<noteq> Some Dir"
proof -
  show "chat_manager s1 = chat_manager self"
    using assms
    by (auto simp: process_document_build_def Let_def split: sum.splits prod.splits)
  show "stat (filesystem s1) p = stat (filesystem self) p"
    if "p \<noteq> child PDF_UPLOAD_DIR (sanitize_filename filename)"
    using assms that
    by (auto simp: process_document_build_def Let_def write_file_Inr stat_update child_upload_nonempty
        split: sum.splits prod.splits)
  show "stat (filesystem s1) (child PDF_UPLOAD_DIR (sanitize_filename filename)) \<noteq> Some Dir"
    if "stat (filesystem self) (child PDF_UPLOAD_DIR (sanitize_filename filename)) \<noteq> Some Dir"
    using assms that
    by (auto simp: process_document_build_def Let_def write_file_Inr stat_update child_upload_nonempty
        split: sum.splits prod.splits)
qed

lemma save_vectorstore_frame:
  assumes "save_vectorstore dump d vs name = (r, d')"
    and "q \<noteq> child VECTOR_STORE_DIR name @ [''vectors.pkl'']"
  shows "stat d' q = stat d q \<or> (stat d q = None \<and> stat d' q = Some Dir)"
proof (cases "mkdir_parents d (child VECTOR_STORE_DIR name)")
  case (Inl e)
  then show ?thesis using assms(1) by (simp add: save_vectorstore_def save_vectorstore_try_def)
next
  case (Inr d1)
  note fr = mkdir_parents_frame[OF Inr, of q]
  let ?vf = "child VECTOR_STORE_DIR name @ [''vectors.pkl'']"
  show ?thesis
  proof (cases "write_file d1 ?vf (Raw [])")
    case (Inl e)
    then have "d' = d1" using assms(1) Inr by (simp add: save_vectorstore_def save_vectorstore_try_def)
    then show ?thesis using fr by simp
  next
    case w: (Inr d2)
    then have d2: "d2 = AList.update ?vf (File (Raw [])) d1" by (simp add: write_file_Inr)
    have "\<exists>c. d' = AList.update ?vf (File c) d2"
      using assms(1) Inr w
      by (cases "dump vs") (auto simp: save_vectorstore_def save_vectorstore_try_def Let_def split: prod.splits)
    then have "stat d' q = stat d1 q" using assms(2) d2 by (auto simp: stat_update)
    then show ?thesis using fr by simp
  qed
qed

lemma save_vectorstore_fails_frame:
  assumes "save_vectorstore dump d vs name = (Some e, d')"
    and "\<And>d1. mkdir_parents d (child VECTOR_STORE_DIR name) = Inr d1 \<Longrightarrow>
           stat d1 (child VECTOR_STORE_DIR name @ [''vectors.pkl'']) \<noteq> Some Dir \<Longrightarrow> dump vs = None"
  shows "stat d' q = stat d q \<or> (stat d q = None \<and> stat d' q = Some Dir)"
proof (cases "mkdir_parents d (child VECTOR_STORE_DIR name)")
  case (Inl x)
  then show ?thesis using assms(1) by (simp add: save_vectorstore_def save_vectorstore_try_def)
next
  case (Inr d1)
  show ?thesis
  proof (cases "write_file d1 (child VECTOR_STORE_DIR name @ [''vectors.pkl'']) (Raw [])")
    case (Inl x)
    then have "d' = d1" using assms(1) Inr by (simp add: save_vectorstore_def save_vectorstore_try_def)
    then show ?thesis using mkdir_parents_frame[OF Inr, of q] by simp
  next
    case w: (Inr d2)
    then have "stat d1 (child VECTOR_STORE_DIR name @ [''vectors.pkl'']) \<noteq> Some Dir"
      by (simp add: write_file_Inr)
    from assms(2)[OF Inr this] show ?thesis
      using assms(1) Inr w by (simp add: save_vectorstore_def save_vectorstore_try_def)
  qed
qed

lemma process_document_try_chat:
  "process_document_try lib self upload filename = (r, self') \<Longrightarrow> chat_manager self' = chat_manager self"
  by (auto simp: process_document_try_def Let_def split: sum.splits prod.splits option.splits
      dest: process_document_build_frame(1))

lemma process_document_try_staged:
  assumes "process_document_try lib self upload filename = (r, self')"
    and "stat (filesystem self) (child PDF_UPLOAD_DIR (sanitize_filename filename)) \<noteq> Some Dir"
  shows "stat (filesystem self') (child PDF_UPLOAD_DIR (sanitize_filename filename)) \<noteq> Some Dir"
proof -
  let ?dp = "child PDF_UPLOAD_DIR (sanitize_filename filename)"
  obtain b s1 where b: "process_document_build lib self upload filename = (b, s1)" by (cases "process_document_build lib self upload filename")
  have nd: "stat (filesystem s1) ?dp \<noteq> Some Dir" using process_document_build_frame(3)[OF b assms(2)] .
  show ?thesis
  proof (cases b)
    case (Inl e)
    then show ?thesis using assms(1) b nd by (simp add: process_document_try_def)
  next
    case (Inr x)
    obtain tx pages chunks vs where x: "x = (tx, pages, chunks, vs)" by (cases x) auto
    have fl: "\<exists>c. stat (filesystem s1) ?dp = Some (File c)"
      using b Inr
      by (auto simp: process_document_build_def Let_def write_file_Inr stat_update child_upload_nonempty
          split: sum.splits prod.splits)
    obtain sr d3 where sv: "save_vectorstore (pickle_dump_error lib) (filesystem s1) vs
        (doc_name_of (sanitize_filename filename)) = (sr, d3)"
      by (cases "save_vectorstore (pickle_dump_error lib) (filesystem s1) vs
        (doc_name_of (sanitize_filename filename))")
    have "stat d3 ?dp = stat (filesystem s1) ?dp"
      using save_vectorstore_frame[OF sv, of ?dp] fl by (auto simp: upload_not_index)
    moreover have "filesystem self' = d3"
      using assms(1) b Inr x sv
      by (auto simp: process_document_try_def split: option.splits sum.splits)
    ultimately show ?thesis using nd by simp
  qed
qed

lemma unlink_Inr:
  "unlink d p = Inr d' \<longleftrightarrow> (\<exists>c. stat d p = Some (File c)) \<and> d' = AList.delete p d"
  by (auto simp: unlink_def split: option.splits node.splits)

text \<open>The handler of \<^verbatim>\<open>process_document\<close>, when the staged path is not a directory.\<close>

lemma process_document_handler:
  assumes "process_document_try lib self upload filename = (Inl e, s1)"
    and "stat (filesystem s1) (child PDF_UPLOAD_DIR (sanitize_filename filename)) \<noteq> Some Dir"
  shows "\<exists>self'. process_document lib self upload filename = (Inr (StatusError (str e)), self') \<and>
      chat_manager self' = chat_manager s1 \<and>
      stat (filesystem self') (child PDF_UPLOAD_DIR (sanitize_filename filename)) = None \<and>
      (\<forall>p. p \<noteq> child PDF_UPLOAD_DIR (sanitize_filename filename) \<longrightarrow>
         stat (filesystem self') p = stat (filesystem s1) p)"
proof -
  let ?dp = "child PDF_UPLOAD_DIR (sanitize_filename filename)"
  show ?thesis
  proof (cases "stat (filesystem s1) ?dp")
    case None
    then have "process_document lib self upload filename = (Inr (StatusError (str e)), s1)"
      using assms(1) by (simp add: process_document_def exists_def)
    then show ?thesis using None by auto
  next
    case (Some n)
    then obtain c where c: "stat (filesystem s1) ?dp = Some (File c)"
      using assms(2) by (cases n) auto
    let ?s = "s1\<lparr>filesystem := AList.delete ?dp (filesystem s1)\<rparr>"
    have "process_document lib self upload filename = (Inr (StatusError (str e)), ?s)"
      using assms(1) c by (simp add: process_document_def exists_def unlink_def)
    moreover have "stat (filesystem ?s) ?dp = None"
      by (simp add: stat_delete child_upload_nonempty)
    moreover have "stat (filesystem ?s) p = stat (filesystem s1) p" if "p \<noteq> ?dp" for p
      using that by (simp add: stat_delete)
    ultimately show ?thesis by (intro exI[of _ ?s]) auto
  qed
qed

lemma demo_try_blank:
  "fst (process_document_build (demo_collaborators summarize_ok dump_ok) demo_engine (Inr ''  '') ''doc.txt'') =
     Inl (RuntimeError ''Failed to load document data/pdfs/doc.txt: No text found in file'')"
  by code_simp

text \<open>The cleanup of \<^verbatim>\<open>process_document\<close> is not guarded: with an empty file name the
  staged path is the upload directory itself, \<^verbatim>\<open>unlink\<close> raises, and so does the
  method.\<close>

lemma process_document_cleanup_raises:
  "fst (process_document (demo_collaborators summarize_ok dump_ok) demo_engine (Inr ''cat sat'') '''') =
     Inl (OSError ''Is a directory'')"
  by code_simp

lemma demo_build:
  "fst (process_document_build (demo_collaborators summarize_down dump_ok) demo_engine (Inr ''cat'') ''doc.txt'') =
     Inr (''cat'', 1, [''cat''], \<lparr>vectors = [[1]], texts = [''cat'']\<rparr>)"
  "fst (process_document_build (demo_collaborators summarize_ok dump_disk_full) demo_engine (Inr ''cat'') ''doc.txt'') =
     Inr (''cat'', 1, [''cat''], \<lparr>vectors = [[1]], texts = [''cat'']\<rparr>)"
  by code_simp+

lemma demo_open:
  "case mkdir_parents
          (filesystem (snd (process_document_build (demo_collaborators summarize_ok dump_disk_full) demo_engine
             (Inr ''cat'') ''doc.txt'')))
          (child VECTOR_STORE_DIR (doc_name_of (sanitize_filename ''doc.txt''))) of
     Inl e \<Rightarrow> False
   | Inr d1 \<Rightarrow>
       stat d1 (child VECTOR_STORE_DIR (doc_name_of (sanitize_filename ''doc.txt'')) @ [''vectors.pkl'']) \<noteq> Some Dir"
  by code_simp

text \<open>When \<^verbatim>\<open>pickle.dump\<close> finds the disk full, the index saved before is lost: the file
  holds the bytes written until then, and loading it gives \<^verbatim>\<open>None\<close>.\<close>

lemma demo_truncated:
  "fst (process_document (demo_collaborators summarize_ok dump_disk_full) demo_engine (Inr ''cat'') ''doc.txt'') =
     Inr (StatusError ''Failed to save vectorstore: No space left on device'') \<and>
   stat (filesystem (snd (process_document (demo_collaborators summarize_ok dump_disk_full) demo_engine
        (Inr ''cat'') ''doc.txt''))) [''data'', ''vectorstore'', ''doc'', ''vectors.pkl''] =
     Some (File (Raw [CHR 0x80, CHR 0x04])) \<and>
   load_vectorstore (filesystem (snd (process_document (demo_collaborators summarize_ok dump_disk_full) demo_engine
        (Inr ''cat'') ''doc.txt''))) ''doc'' = Inr PyNone"
  by code_simp

section \<open>Facts about the conversation store\<close>

text \<open>Loading a file that does not parse, when the copy can be made: the log starts
  empty, the copy stands at the \<^verbatim>\<open>.corrupted\<close> path and the file itself is still there.\<close>

lemma load_history_corrupted:
  assumes "stat disk (storage_path self) = Some (File c)" "json_load c = Inl e"
    "with_suffix (storage_path self) ''.corrupted'' = Inr backup_path"
    "backup_path \<noteq> storage_path self" "stat disk backup_path \<noteq> Some Dir"
    "stat disk (butlast (storage_path self)) = Some Dir"
  shows "\<exists>disk'. load_history self disk = Inr (self\<lparr>history := []\<rparr>, disk') \<and>
           stat disk' backup_path = Some (File c) \<and> stat disk' (storage_path self) = Some (File c)"
proof -
  have par: "butlast backup_path = butlast (storage_path self)" and bne: "backup_path \<noteq> []"
    using assms(3) by (auto simp: with_suffix_def split: if_splits)
  have tr: "load_history_try disk (storage_path self) = Inl e"
    using assms(1,2) by (simp add: load_history_try_def exists_def read_file_def)
  have cp: "copy2 disk (storage_path self) backup_path = Inr (AList.update backup_path (File c) disk)"
    using assms(1,4,5,6) par by (simp add: copy2_def read_file_def write_file_def)
  have "load_history self disk = Inr (self\<lparr>history := []\<rparr>, AList.update backup_path (File c) disk)"
    using tr cp assms(1,3) by (simp add: load_history_def exists_def)
  moreover have "stat (AList.update backup_path (File c) disk) backup_path = Some (File c)"
    using bne by (simp add: stat_update)
  moreover have "stat (AList.update backup_path (File c) disk) (storage_path self) = Some (File c)"
    using bne assms(1,4) by (simp add: stat_update)
  ultimately show ?thesis by blast
qed

section \<open>Facts about deleting a document\<close>

lemma map_of_filter_key:
  "map_of (filter (\<lambda>(k, v). P k) xs) k = (if P k then map_of xs k else None)"
  by (induction xs) auto

lemma stat_rmtree:
  "rmtree d p = Inr d' \<Longrightarrow> stat d' q = (if q \<noteq> [] \<and> take (length p) q = p then None else stat d q)"
  by (auto simp: rmtree_def stat_def map_of_filter_key split: option.splits node.splits)

lemma stem_chat_history: "stem ''chat_history.json'' = ''chat_history''"
  by (simp add: stem_def suffix_def after_dot_def)

lemma with_suffix_tmp:
  "with_suffix [''data'', ''chat_history.json''] ''.tmp'' = Inr [''data'', ''chat_history.tmp'']"
  by (simp add: with_suffix_def stem_chat_history)

lemma with_suffix_backup:
  "with_suffix [''data'', ''chat_history.json''] (''.backup_'' @ ts) =
     (if CHR ''/'' \<in> set ts then Inl (ValueError ''Invalid suffix'')
      else Inr [''data'', ''chat_history.backup_'' @ ts])"
  by (simp add: with_suffix_def stem_chat_history)

lemma save_cleanup_raises: "save_cleanup d t e \<noteq> (None, d')"
  by (auto simp: save_cleanup_def split: sum.splits)

lemma save_default:
  assumes "storage_path cm = [''data'', ''chat_history.json'']"
  shows "save cm d = (None, d') \<longleftrightarrow>
     stat d [''data''] = Some Dir \<and> stat d [''data'', ''chat_history.tmp''] \<noteq> Some Dir \<and>
     stat d [''data'', ''chat_history.json''] \<noteq> Some Dir \<and>
     d' = AList.update [''data'', ''chat_history.json''] (File (JsonDoc (history cm)))
            (AList.delete [''data'', ''chat_history.tmp'']
               (AList.update [''data'', ''chat_history.tmp''] (File (JsonDoc (history cm))) d))"
proof -
  let ?tmp = "[''data'', ''chat_history.tmp'']" and ?sp = "[''data'', ''chat_history.json'']"
  let ?c = "JsonDoc (history cm)"
  have s: "save cm d =
     (case write_file d ?tmp ?c of
        Inl e \<Rightarrow> save_cleanup d ?tmp e
      | Inr d1 \<Rightarrow> (case replace d1 ?tmp ?sp of
                     Inl e \<Rightarrow> save_cleanup d1 ?tmp e
                   | Inr d2 \<Rightarrow> (None, d2)))"
    using assms with_suffix_tmp by (simp add: save_def split: sum.splits)
  show ?thesis
  proof (cases "write_file d ?tmp ?c")
    case (Inl e)
    then have "\<not> (stat d ?tmp \<noteq> Some Dir \<and> stat d [''data''] = Some Dir)"
      using write_file_Inr[of d ?tmp ?c] by auto
    then show ?thesis using s Inl save_cleanup_raises by auto
  next
    case (Inr d1)
    then have w: "stat d ?tmp \<noteq> Some Dir" "stat d [''data''] = Some Dir"
      "d1 = AList.update ?tmp (File ?c) d"
      using write_file_Inr[of d ?tmp ?c d1] by auto
    have r: "replace d1 ?tmp ?sp =
        (if stat d ?sp = Some Dir then Inl (OSError ''Is a directory'')
         else Inr (AList.update ?sp (File ?c) (AList.delete ?tmp d1)))"
      using w by (simp add: replace_def stat_update)
    show ?thesis using s Inr r w save_cleanup_raises by auto
  qed
qed

lemma stat_after_save:
  "stat (AList.update [''data'', ''chat_history.json''] (File c)
            (AList.delete [''data'', ''chat_history.tmp'']
               (AList.update [''data'', ''chat_history.tmp''] (File c') d))) p =
   (if p = [''data'', ''chat_history.json''] then Some (File c)
    else if p = [''data'', ''chat_history.tmp''] then None else stat d p)"
  by (simp add: stat_update stat_delete)

lemma copy2_frame:
  assumes "copy2 d src dst = Inr d'" "p \<noteq> dst" "p \<noteq> dst @ [last src]"
  shows "stat d' p = stat d p"
proof -
  from assms(1) obtain target c where t: "target = dst \<or> target = dst @ [last src]"
    and w: "write_file d target c = Inr d'"
    by (auto simp: copy2_def Let_def split: if_splits sum.splits)
  from w have "d' = AList.update target (File c) d" and "target \<noteq> []"
    by (auto simp: write_file_Inr stat_def)
  then show ?thesis using t assms(2,3) by (auto simp: stat_update)
qed

lemma create_backup_frame:
  assumes "storage_path cm = [''data'', ''chat_history.json'']"
    and "p \<noteq> [''data'', ''chat_history.backup_'' @ ts]"
    and "p \<noteq> [''data'', ''chat_history.backup_'' @ ts, ''chat_history.json'']"
  shows "stat (create_backup cm d ts) p = stat d p"
proof (cases "exists d [''data'', ''chat_history.json''] \<and> CHR ''/'' \<notin> set ts")
  case False
  then show ?thesis using assms(1) with_suffix_backup[of ts] by (auto simp: create_backup_def)
next
  case True
  let ?bk = "[''data'', ''chat_history.backup_'' @ ts]"
  have ws: "with_suffix [''data'', ''chat_history.json''] (''.backup_'' @ ts) = Inr ?bk"
    using True with_suffix_backup[of ts] by simp
  show ?thesis
  proof (cases "copy2 d [''data'', ''chat_history.json''] ?bk")
    case (Inl e)
    then show ?thesis using True assms(1) ws by (simp add: create_backup_def)
  next
    case (Inr d')
    have "stat d' p = stat d p"
      using copy2_frame[OF Inr, of p] assms(2,3) by simp
    then show ?thesis using True assms(1) ws Inr by (simp add: create_backup_def)
  qed
qed

lemma update_entries:
  "e \<in> set (AList.update k v d) \<Longrightarrow> e = (k, v) \<or> e \<in> set d"
  by (induction d) (auto split: if_splits)

lemma delete_entries: "e \<in> set (AList.delete k d) \<Longrightarrow> e \<in> set d"
  by (simp add: AList.delete_eq)

lemma unlink_each_None:
  "unlink_each d ps = (None, d') \<Longrightarrow> d' = filter (\<lambda>e. fst e \<notin> set ps) d"
proof (induction ps arbitrary: d)
  case Nil
  then show ?case by simp
next
  case (Cons p ps)
  then obtain d1 where u: "unlink d p = Inr d1" and r: "unlink_each d1 ps = (None, d')"
    by (auto split: sum.splits)
  have "d1 = filter (\<lambda>e. fst e \<noteq> p) d"
    using u by (auto simp: unlink_Inr AList.delete_eq case_prod_beta intro: filter_cong)
  moreover have "d' = filter (\<lambda>e. fst e \<notin> set ps) d1" using Cons.IH[OF r] .
  ultimately show ?case by (auto intro: filter_cong)
qed


lemma glob_eq: "glob d dir pat = map fst (filter (in_glob dir pat) d)"
proof -
  have "glob d dir pat =
      map (\<lambda>e. dir @ [last (fst e)])
        (filter (\<lambda>e. fnmatch pat (last (fst e))) (filter (\<lambda>e. fst e \<noteq> [] \<and> butlast (fst e) = dir) d))"
    by (simp add: glob_def iterdir_def filter_map comp_def case_prod_beta)
  also have "\<dots> = map (\<lambda>e. dir @ [last (fst e)]) (filter (in_glob dir pat) d)"
  proof -
    have "in_glob dir pat = (\<lambda>e. fst e \<noteq> [] \<and> butlast (fst e) = dir \<and> fnmatch pat (last (fst e)))"
      by (simp add: fun_eq_iff in_glob_def)
    then show ?thesis by (simp add: conj_commute conj_left_commute cong: conj_cong)
  qed
  also have "\<dots> = map fst (filter (in_glob dir pat) d)"
    by (rule map_cong) (auto simp: in_glob_def)
  finally show ?thesis .
qed

lemma glob_empty_iff: "glob d dir pat = [] \<longleftrightarrow> (\<forall>e \<in> set d. \<not> in_glob dir pat e)"
  by (simp add: glob_eq filter_empty_conv)

lemma glob_after_unlink:
  assumes "unlink_each d (glob d dir pat) = (None, d')"
  shows "glob d' dir pat = []"
proof -
  have d': "d' = filter (\<lambda>e. fst e \<notin> set (glob d dir pat)) d"
    using assms by (rule unlink_each_None)
  show ?thesis unfolding glob_empty_iff
  proof
    fix e assume "e \<in> set d'"
    then have "e \<in> set d" "fst e \<notin> set (glob d dir pat)" using d' by auto
    then show "\<not> in_glob dir pat e" by (auto simp: glob_eq)
  qed
qed

lemma clear_history_default:
  "clear_history cm d (Some name) ts = (None, cm', d') \<longleftrightarrow>
     cm' = (if map_of (history cm) name \<noteq> None
            then cm\<lparr>history := AList.delete name (history cm)\<rparr> else cm) \<and>
     save cm' (create_backup cm d ts) = (None, d')"
  by (auto simp: clear_history_def Let_def split: prod.splits option.splits)

lemma delete_pdf_True:
  "delete_pdf self name ts = (True, self') \<longleftrightarrow>
     (\<exists>d1 d2 cm' d3.
        unlink_each (filesystem self) (glob (filesystem self) PDF_UPLOAD_DIR (name @ ''.*'')) = (None, d1) \<and>
        (if exists d1 (child VECTOR_STORE_DIR name) then rmtree d1 (child VECTOR_STORE_DIR name) else Inr d1) = Inr d2 \<and>
        clear_history (chat_manager self) d2 (Some name) ts = (None, cm', d3) \<and>
        self' = self\<lparr>filesystem := d3, chat_manager := cm'\<rparr>)"
  by (auto simp: delete_pdf_def delete_pdf_try_def Let_def split: prod.splits option.splits sum.splits)

lemma create_backup_cases:
  assumes "storage_path cm = [''data'', ''chat_history.json'']"
  shows "create_backup cm d ts = d \<or>
     (\<exists>target c. (target = [''data'', ''chat_history.backup_'' @ ts] \<or>
                    target = [''data'', ''chat_history.backup_'' @ ts, ''chat_history.json'']) \<and>
        create_backup cm d ts = AList.update target (File c) d)"
proof (cases "exists d [''data'', ''chat_history.json''] \<and> CHR ''/'' \<notin> set ts")
  case False
  then have "create_backup cm d ts = d"
    using assms with_suffix_backup[of ts] by (auto simp: create_backup_def)
  then show ?thesis by simp
next
  case True
  let ?bk = "[''data'', ''chat_history.backup_'' @ ts]"
  have ws: "with_suffix [''data'', ''chat_history.json''] (''.backup_'' @ ts) = Inr ?bk"
    using True with_suffix_backup[of ts] by simp
  show ?thesis
  proof (cases "copy2 d [''data'', ''chat_history.json''] ?bk")
    case (Inl x)
    then have "create_backup cm d ts = d" using True assms ws by (simp add: create_backup_def)
    then show ?thesis by simp
  next
    case (Inr d')
    then obtain target c where t: "target = ?bk \<or> target = ?bk @ [''chat_history.json'']"
      and w: "write_file d target c = Inr d'"
      by (auto simp: copy2_def Let_def split: if_splits sum.splits)
    have "create_backup cm d ts = AList.update target (File c) d"
      using True assms(1) ws Inr w by (simp add: create_backup_def write_file_Inr)
    then show ?thesis using t by auto
  qed
qed

lemma create_backup_entries:
  assumes "storage_path cm = [''data'', ''chat_history.json'']" "e \<in> set (create_backup cm d ts)"
  shows "e \<in> set d \<or> fst e = [''data'', ''chat_history.backup_'' @ ts] \<or>
         fst e = [''data'', ''chat_history.backup_'' @ ts, ''chat_history.json'']"
  using create_backup_cases[OF assms(1), of d ts] assms(2) update_entries[of e _ _ d]
  by (metis fst_conv)

lemma delete_pdf_absent:
  assumes sp: "storage_path (chat_manager self) = [''data'', ''chat_history.json'']"
    and g: "glob (filesystem self) PDF_UPLOAD_DIR (name @ ''.*'') = []"
    and v: "\<not> exists (filesystem self) (child VECTOR_STORE_DIR name)"
    and h: "map_of (history (chat_manager self)) name = None"
    and s: "stat (filesystem self) [''data''] = Some Dir"
       "stat (filesystem self) [''data'', ''chat_history.tmp''] \<noteq> Some Dir"
       "stat (filesystem self) [''data'', ''chat_history.json''] \<noteq> Some Dir"
  shows "delete_pdf self name ts =
     (True, self\<lparr>filesystem :=
        AList.update [''data'', ''chat_history.json''] (File (JsonDoc (history (chat_manager self))))
            (AList.delete [''data'', ''chat_history.tmp'']
               (AList.update [''data'', ''chat_history.tmp''] (File (JsonDoc (history (chat_manager self))))
                  (create_backup (chat_manager self) (filesystem self) ts)))\<rparr>)"
proof -
  let ?b = "create_backup (chat_manager self) (filesystem self) ts"
  have "stat ?b [''data''] = Some Dir" "stat ?b [''data'', ''chat_history.tmp''] \<noteq> Some Dir"
    "stat ?b [''data'', ''chat_history.json''] \<noteq> Some Dir"
    using s by (simp_all add: create_backup_frame[OF sp])
  then have "save (chat_manager self) ?b = (None,
        AList.update [''data'', ''chat_history.json''] (File (JsonDoc (history (chat_manager self))))
            (AList.delete [''data'', ''chat_history.tmp'']
               (AList.update [''data'', ''chat_history.tmp''] (File (JsonDoc (history (chat_manager self)))) ?b)))"
    by (simp add: save_default[OF sp])
  then show ?thesis
    using g v h by (simp add: delete_pdf_True clear_history_default)
qed

lemma rmtree_entries: "rmtree d p = Inr d' \<Longrightarrow> e \<in> set d' \<Longrightarrow> e \<in> set d"
  by (auto simp: rmtree_def split: option.splits node.splits)

lemma store_path_not_chat:
  "x \<noteq> ''vectorstore'' \<Longrightarrow> child VECTOR_STORE_DIR name \<noteq> [''data'', x]"
  "x \<noteq> ''vectorstore'' \<Longrightarrow> child VECTOR_STORE_DIR name \<noteq> [''data'', x, y]"
  by (auto simp: child_def VECTOR_STORE_DIR_def)

lemma delete_pdf_post:
  assumes sp: "storage_path (chat_manager self) = [''data'', ''chat_history.json'']"
    and ok: "delete_pdf self name ts = (True, self')"
  shows "storage_path (chat_manager self') = [''data'', ''chat_history.json'']"
    and "glob (filesystem self') PDF_UPLOAD_DIR (name @ ''.*'') = []"
    and "\<not> exists (filesystem self') (child VECTOR_STORE_DIR name)"
    and "map_of (history (chat_manager self')) name = None"
    and "stat (filesystem self') [''data''] = Some Dir"
    and "stat (filesystem self') [''data'', ''chat_history.tmp''] = None"
    and "stat (filesystem self') [''data'', ''chat_history.json''] =
           Some (File (JsonDoc (history (chat_manager self'))))"
    and "vector_store self' = vector_store self"
proof -
  let ?cm = "chat_manager self" and ?vp = "child VECTOR_STORE_DIR name"
  from ok obtain d1 d2 cm' d3 where
    u: "unlink_each (filesystem self) (glob (filesystem self) PDF_UPLOAD_DIR (name @ ''.*'')) = (None, d1)"
    and r: "(if exists d1 ?vp then rmtree d1 ?vp else Inr d1) = Inr d2"
    and c: "clear_history ?cm d2 (Some name) ts = (None, cm', d3)"
    and s': "self' = self\<lparr>filesystem := d3, chat_manager := cm'\<rparr>"
    unfolding delete_pdf_True by blast
  let ?b = "create_backup ?cm d2 ts"
  from c have cm': "cm' = (if map_of (history ?cm) name \<noteq> None
            then ?cm\<lparr>history := AList.delete name (history ?cm)\<rparr> else ?cm)"
    and sv: "save cm' ?b = (None, d3)"
    unfolding clear_history_default by auto
  have sp': "storage_path cm' = [''data'', ''chat_history.json'']" using cm' sp by auto
  from sv have pre: "stat ?b [''data''] = Some Dir"
    and d3: "d3 = AList.update [''data'', ''chat_history.json''] (File (JsonDoc (history cm')))
            (AList.delete [''data'', ''chat_history.tmp'']
               (AList.update [''data'', ''chat_history.tmp''] (File (JsonDoc (history cm'))) ?b))"
    unfolding save_default[OF sp'] by auto
  show "storage_path (chat_manager self') = [''data'', ''chat_history.json'']"
    using s' sp' by simp
  show "vector_store self' = vector_store self" using s' by simp
  show "map_of (history (chat_manager self')) name = None"
    using s' cm' by (auto simp: delete_conv')
  show "stat (filesystem self') [''data''] = Some Dir"
    and "stat (filesystem self') [''data'', ''chat_history.tmp''] = None"
    and "stat (filesystem self') [''data'', ''chat_history.json''] =
           Some (File (JsonDoc (history (chat_manager self'))))"
    using s' pre unfolding d3 by (simp_all add: stat_after_save)
  have "stat d2 ?vp = None"
  proof (cases "exists d1 ?vp")
    case True
    then have "rmtree d1 ?vp = Inr d2" using r by simp
    then show ?thesis using stat_rmtree[of d1 ?vp d2 ?vp] child_store_nonempty by simp
  next
    case False
    then show ?thesis using r by (simp add: exists_def)
  qed
  then have "stat ?b ?vp = None"
    using create_backup_frame[OF sp, of ?vp ts d2] by (simp add: store_path_not_chat)
  then show "\<not> exists (filesystem self') ?vp"
    using s' unfolding d3 by (simp add: stat_after_save exists_def store_path_not_chat)
  have g1: "\<forall>e \<in> set d1. \<not> in_glob PDF_UPLOAD_DIR (name @ ''.*'') e"
    using glob_after_unlink[OF u] by (simp add: glob_empty_iff)
  have g2: "\<forall>e \<in> set d2. \<not> in_glob PDF_UPLOAD_DIR (name @ ''.*'') e"
    using g1 r rmtree_entries[of d1 ?vp d2] by (auto split: if_splits)
  have gb: "\<not> in_glob PDF_UPLOAD_DIR (name @ ''.*'') e" if "e \<in> set ?b" for e
  proof -
    from create_backup_entries[OF sp that]
    consider "e \<in> set d2" | "fst e = [''data'', ''chat_history.backup_'' @ ts]"
      | "fst e = [''data'', ''chat_history.backup_'' @ ts, ''chat_history.json'']" by blast
    then show ?thesis
    proof cases
      case 1 then show ?thesis using g2 by blast
    next
      case 2 then show ?thesis by (auto simp: in_glob_def PDF_UPLOAD_DIR_def)
    next
      case 3 then show ?thesis by (auto simp: in_glob_def PDF_UPLOAD_DIR_def)
    qed
  qed
  have "\<not> in_glob PDF_UPLOAD_DIR (name @ ''.*'') e" if "e \<in> set d3" for e
  proof -
    from that have "e = ([''data'', ''chat_history.json''], File (JsonDoc (history cm')))
        \<or> e = ([''data'', ''chat_history.tmp''], File (JsonDoc (history cm'))) \<or> e \<in> set ?b"
      unfolding d3 by (auto dest!: update_entries delete_entries)
    then show ?thesis
    proof (elim disjE)
      assume "e \<in> set ?b" then show ?thesis by (rule gb)
    qed (simp_all add: in_glob_def PDF_UPLOAD_DIR_def)
  qed
  then show "glob (filesystem self') PDF_UPLOAD_DIR (name @ ''.*'') = []"
    using s' by (simp add: glob_empty_iff)
qed

lemma load_vectorstore_missing:
  "\<not> exists d (child VECTOR_STORE_DIR name) \<Longrightarrow> load_vectorstore d name = Inr PyNone"
  by (simp add: load_vectorstore_def load_vectorstore_try_def)

lemma delete_pdf_absent_frame:
  assumes sp: "storage_path (chat_manager self) = [''data'', ''chat_history.json'']"
    and g: "glob (filesystem self) PDF_UPLOAD_DIR (name @ ''.*'') = []"
    and v: "\<not> exists (filesystem self) (child VECTOR_STORE_DIR name)"
    and h: "map_of (history (chat_manager self)) name = None"
    and s: "stat (filesystem self) [''data''] = Some Dir"
       "stat (filesystem self) [''data'', ''chat_history.tmp''] \<noteq> Some Dir"
       "stat (filesystem self) [''data'', ''chat_history.json''] \<noteq> Some Dir"
  shows "\<exists>self'. delete_pdf self name ts = (True, self') \<and>
     chat_manager self' = chat_manager self \<and> vector_store self' = vector_store self \<and>
     stat (filesystem self') [''data'', ''chat_history.json''] =
        Some (File (JsonDoc (history (chat_manager self)))) \<and>
     stat (filesystem self') [''data'', ''chat_history.tmp''] = None \<and>
     (\<forall>p. p \<noteq> [''data'', ''chat_history.backup_'' @ ts] \<and>
          p \<noteq> [''data'', ''chat_history.backup_'' @ ts, ''chat_history.json''] \<and>
          p \<noteq> [''data'', ''chat_history.tmp''] \<and> p \<noteq> [''data'', ''chat_history.json''] \<longrightarrow>
          stat (filesystem self') p = stat (filesystem self) p)"
  unfolding delete_pdf_absent[OF assms]
  by (simp add: stat_after_save create_backup_frame[OF sp])

lemma demo_delete: "fst (delete_pdf demo_engine ''doc'' ''20240101_000000'') = True"
  by code_simp

section \<open>Claims about the similarity index\<close>

text \<open>
  C1, as the specification states it: of two stored chunks with equal cosine similarity,
  \<^verbatim>\<open>search\<close> returns the one with the lower insertion index first. It fails on two
  chunks with the same vector when \<^verbatim>\<open>np.argsort\<close> lists the two equal similarities in
  index order (as NumPy does for an array of two): \<^verbatim>\<open>[::-1]\<close> reverses that, and the
  second chunk is returned before the first.
\<close>

theorem search_tie_counterexample:
  "search argsort_index_order
      (snd (embed_documents (LightweightEmbeddings_init word_fit (tfidf_transform words)) [''cat dog'']))
      ''cat'' \<lparr>vectors = [[1, 0], [1, 0]], texts = [''first'', ''second'']\<rparr> 2 =
   Inr [(''second'', 1), (''first'', 1)]"
  by (simp add: demo_query search_def search_try_def
      cosine_similarity_def normalize_def norm2_def dot_def top_indices_def py_take_def
      argsort_index_order_def upt_rec)

text \<open>
  C1, amended: \<^verbatim>\<open>search\<close> has no tie-break of its own. For every sort that keeps NumPy's
  promise, the result at position \<open>a\<close> is the chunk that \<^verbatim>\<open>np.argsort\<close> lists at position
  \<open>n - 1 - a\<close>, \<open>n\<close> being the number of chunks, with its similarity; so the scores are
  non-increasing, and chunks of equal similarity are returned in the reverse of the order
  in which \<^verbatim>\<open>np.argsort\<close> lists them. That order is not fixed: of the two sorts above,
  both of which keep the promise, one makes \<^verbatim>\<open>search\<close> return the later of two equal
  chunks first, and the other the earlier.
\<close>

theorem search_order_follows_argsort:
  "(is_argsort np_argsort \<and> search np_argsort emb q vs k = Inr res \<longrightarrow>
      (\<exists>qv sims. embed_query emb q = Inr qv \<and> cosine_similarity qv (vectors vs) = Inr sims \<and>
         length res \<le> length sims \<and>
         (\<forall>a < length res.
            res ! a = (texts vs ! (np_argsort sims ! (length sims - 1 - a)),
                       sims ! (np_argsort sims ! (length sims - 1 - a)))) \<and>
         sorted_wrt (\<lambda>x y. y \<le> x) (map snd res))) \<and>
   is_argsort argsort_index_order \<and> is_argsort argsort_reverse_order \<and>
   search argsort_index_order
      (snd (embed_documents (LightweightEmbeddings_init word_fit (tfidf_transform words)) [''cat dog'']))
      ''cat'' \<lparr>vectors = [[1, 0], [1, 0]], texts = [''first'', ''second'']\<rparr> 2 =
     Inr [(''second'', 1), (''first'', 1)] \<and>
   search argsort_reverse_order
      (snd (embed_documents (LightweightEmbeddings_init word_fit (tfidf_transform words)) [''cat dog'']))
      ''cat'' \<lparr>vectors = [[1, 0], [1, 0]], texts = [''first'', ''second'']\<rparr> 2 =
     Inr [(''first'', 1), (''second'', 1)]"
proof (intro conjI impI)
  assume a: "is_argsort np_argsort \<and> search np_argsort emb q vs k = Inr res"
  then have srt: "is_argsort np_argsort" and s: "search np_argsort emb q vs k = Inr res" by simp_all
  obtain qv sims where *: "embed_query emb q = Inr qv" "cosine_similarity qv (vectors vs) = Inr sims"
     "res = map (\<lambda>i. (texts vs ! i, sims ! i)) (top_indices np_argsort sims k)"
    using search_Inr[OF s] by blast
  have len: "length res = length (top_indices np_argsort sims k)" using *(3) by simp
  have nth: "res ! a = (texts vs ! (np_argsort sims ! (length sims - 1 - a)),
                       sims ! (np_argsort sims ! (length sims - 1 - a)))"
    and lt: "a < length sims" if "a < length res" for a
    using that top_indices_nth[OF srt, of a sims k] len *(3) by simp_all
  have "length res \<le> length sims"
  proof (cases "length res")
    case 0 then show ?thesis by simp
  next
    case (Suc n)
    then have "n < length res" by simp
    from lt[OF this] show ?thesis using Suc by simp
  qed
  moreover have "sorted_wrt (\<lambda>x y. y \<le> x) (map snd res)"
    using top_indices_desc[OF srt, of sims k] *(3) by (simp add: comp_def)
  ultimately show "\<exists>qv sims. embed_query emb q = Inr qv \<and> cosine_similarity qv (vectors vs) = Inr sims \<and>
         length res \<le> length sims \<and>
         (\<forall>a < length res.
            res ! a = (texts vs ! (np_argsort sims ! (length sims - 1 - a)),
                       sims ! (np_argsort sims ! (length sims - 1 - a)))) \<and>
         sorted_wrt (\<lambda>x y. y \<le> x) (map snd res)"
    using *(1,2) nth by blast
next
  show "is_argsort argsort_index_order" by (rule is_argsort_index_order)
  show "is_argsort argsort_reverse_order" by (rule is_argsort_reverse_order)
  show "search argsort_index_order
      (snd (embed_documents (LightweightEmbeddings_init word_fit (tfidf_transform words)) [''cat dog'']))
      ''cat'' \<lparr>vectors = [[1, 0], [1, 0]], texts = [''first'', ''second'']\<rparr> 2 =
     Inr [(''second'', 1), (''first'', 1)]"
    by (simp add: demo_query search_def search_try_def
      cosine_similarity_def normalize_def norm2_def dot_def top_indices_def py_take_def
      argsort_index_order_def upt_rec)
  show "search argsort_reverse_order
      (snd (embed_documents (LightweightEmbeddings_init word_fit (tfidf_transform words)) [''cat dog'']))
      ''cat'' \<lparr>vectors = [[1, 0], [1, 0]], texts = [''first'', ''second'']\<rparr> 2 =
     Inr [(''first'', 1), (''second'', 1)]"
    by (simp add: demo_query search_def search_try_def
      cosine_similarity_def normalize_def norm2_def dot_def top_indices_def py_take_def
      argsort_reverse_order_def upt_rec)
qed

theorem search_order_follows_argsort_witness:
  "\<exists>qv sims. embed_query (snd (embed_documents (LightweightEmbeddings_init word_fit (tfidf_transform words)) [''cat dog''])) ''cat'' = Inr qv \<and>
     cosine_similarity qv [[0, 1], [1, 0], [1, 0]] = Inr sims \<and>
     (2::nat) \<le> length sims \<and>
     (''two'', 1) = ([''zero'', ''one'', ''two''] ! (argsort_index_order sims ! (length sims - 1)),
                    sims ! (argsort_index_order sims ! (length sims - 1))) \<and>
     (''one'', 1) = ([''zero'', ''one'', ''two''] ! (argsort_index_order sims ! (length sims - 1 - 1)),
                    sims ! (argsort_index_order sims ! (length sims - 1 - 1)))"
proof -
  from search_order_follows_argsort[where np_argsort = argsort_index_order, THEN conjunct1, rule_format,
      OF conjI[OF is_argsort_index_order demo_search]]
  obtain qv sims where
    q: "embed_query (snd (embed_documents (LightweightEmbeddings_init word_fit (tfidf_transform words)) [''cat dog''])) ''cat'' = Inr qv"
    and c: "cosine_similarity qv [[0, 1], [1, 0], [1, 0]] = Inr sims"
    and l: "(2::nat) \<le> length sims"
    and n: "\<forall>a<length [(''two'', 1::real), (''one'', 1)].
       [(''two'', 1), (''one'', 1)] ! a =
         ([''zero'', ''one'', ''two''] ! (argsort_index_order sims ! (length sims - 1 - a)),
          sims ! (argsort_index_order sims ! (length sims - 1 - a)))"
    by auto
  from n[rule_format, of 0] n[rule_format, of 1] q c l show ?thesis by auto
qed

text \<open>
  C8: for every sort that keeps NumPy's promise, \<^verbatim>\<open>search\<close> returns its pairs with
  scores in non-increasing order, whatever the index, the query and \<open>k\<close>; and on a fitted
  vectorizer and a well-formed index (as many texts as vector rows, rows as long as the
  query vector) it does return, with all the chunks when \<open>k\<close> is at least their number.
\<close>

theorem search_descending_all:
  assumes "is_argsort np_argsort"
  shows "(\<forall>res. search np_argsort emb q vs k = Inr res \<longrightarrow> sorted_wrt (\<lambda>a b. b \<le> a) (map snd res)) \<and>
   (embed_query emb q = Inr qv \<and> vectors vs \<noteq> [] \<and> qv \<noteq> [] \<and>
    (\<forall>r \<in> set (vectors vs). length r = length qv) \<and> length (texts vs) = length (vectors vs) \<longrightarrow>
    (\<exists>res. search np_argsort emb q vs k = Inr res \<and>
       (int (length (texts vs)) \<le> k \<longrightarrow>
          length res = length (texts vs) \<and> mset (map fst res) = mset (texts vs))))"
proof (intro conjI allI impI)
  fix res assume "search np_argsort emb q vs k = Inr res"
  then obtain sims where "res = map (\<lambda>i. (texts vs ! i, sims ! i)) (top_indices np_argsort sims k)"
    using search_Inr by blast
  then show "sorted_wrt (\<lambda>a b. b \<le> a) (map snd res)"
    using top_indices_desc[OF assms, of sims k] by (simp add: comp_def)
next
  assume wf: "embed_query emb q = Inr qv \<and> vectors vs \<noteq> [] \<and> qv \<noteq> [] \<and>
    (\<forall>r \<in> set (vectors vs). length r = length qv) \<and> length (texts vs) = length (vectors vs)"
  define sims where "sims = map (\<lambda>r. dot (normalize qv) (normalize r)) (vectors vs)"
  have cs: "cosine_similarity qv (vectors vs) = Inr sims"
    using wf by (simp add: cosine_similarity_def sims_def)
  have len: "length (texts vs) = length sims" using wf by (simp add: sims_def)
  have run: "search np_argsort emb q vs k =
      Inr (map (\<lambda>i. (texts vs ! i, sims ! i)) (top_indices np_argsort sims k))"
    using wf cs by (intro search_returns[OF assms]) simp_all
  have "int (length (texts vs)) \<le> k \<longrightarrow>
      length (map (\<lambda>i. (texts vs ! i, sims ! i)) (top_indices np_argsort sims k)) = length (texts vs) \<and>
      mset (map fst (map (\<lambda>i. (texts vs ! i, sims ! i)) (top_indices np_argsort sims k))) = mset (texts vs)"
    using mset_all_texts[OF assms len] len by (simp add: top_indices_all[OF assms] length_argsort[OF assms])
  with run show "\<exists>res. search np_argsort emb q vs k = Inr res \<and>
       (int (length (texts vs)) \<le> k \<longrightarrow>
          length res = length (texts vs) \<and> mset (map fst res) = mset (texts vs))"
    by blast
qed

theorem search_descending_all_witness:
  "is_argsort argsort_index_order \<and>
   (\<exists>res. search argsort_index_order
      (snd (embed_documents (LightweightEmbeddings_init word_fit (tfidf_transform words)) [''cat dog'']))
      ''cat'' \<lparr>vectors = [[0, 1], [1, 0]], texts = [''zero'', ''one'']\<rparr> 4 = Inr res \<and>
     length res = 2 \<and> mset (map fst res) = mset [''zero'', ''one''])"
  using demo_query is_argsort_index_order
    search_descending_all[OF is_argsort_index_order,
      of "snd (embed_documents (LightweightEmbeddings_init word_fit (tfidf_transform words)) [''cat dog''])"
      "''cat''" "\<lparr>vectors = [[0, 1], [1, 0]], texts = [''zero'', ''one'']\<rparr>" 4 "[1, 0]"]
  by (auto simp: numeral_2_eq_2)

section \<open>Claims about the vectorizer\<close>

text \<open>
  C3, as the specification states it: the vocabulary is built from the first call's
  document collection. It fails when the first call raises: fitting an empty collection
  raises \<^verbatim>\<open>ValueError\<close>, \<^verbatim>\<open>is_fitted\<close> stays false, and the second call builds the
  vocabulary from its own collection.
\<close>

theorem embed_documents_first_call_counterexample:
  "word_fit [] = Inl (ValueError ''empty vocabulary; perhaps the documents only contain stop words'') \<and>
   learned (vectorizer (snd (embed_all (LightweightEmbeddings_init word_fit (tfidf_transform words))
      [[], [''cat sat'']]))) = Some [(''cat'', 1), (''sat'', 1)]"
  by (simp add: LightweightEmbeddings_init_def embed_documents_def fit_transform_def word_fit_def
      words_def tfidf_transform_def)

text \<open>
  C3, amended: over any sequence of \<^verbatim>\<open>embed_documents\<close> calls on a fresh instance, the
  vocabulary is built once, by the first call whose \<^verbatim>\<open>fit_transform\<close> does not raise
  and from that call's collection; the calls before it raise and leave the instance
  unfitted; that call and every later one return the projection of their input through
  that vocabulary (a later call raises where the projection does, as on an empty
  collection), and no later call changes it. The projection drops the terms that are not
  in the vocabulary (the row of a text is the row of the text without them) and never
  grows it (every row has one entry per term of the vocabulary).
\<close>

theorem embed_documents_fit_once:
  "fst (embed_all (LightweightEmbeddings_init f (tfidf_transform analyzer)) calls) =
     projected f (tfidf_transform analyzer) calls \<and>
   is_fitted (snd (embed_all (LightweightEmbeddings_init f (tfidf_transform analyzer)) calls)) =
     (first_fitted f (tfidf_transform analyzer) calls \<noteq> None) \<and>
   (\<forall>voc. first_fitted f (tfidf_transform analyzer) calls = Some voc \<longrightarrow>
      learned (vectorizer (snd (embed_all (LightweightEmbeddings_init f (tfidf_transform analyzer)) calls))) =
        Some voc) \<and>
   (\<forall>voc docs m. tfidf_transform analyzer voc docs = Inr m \<longrightarrow>
      m = map (\<lambda>d. tfidf_row voc (filter (\<lambda>w. w \<in> fst ` set voc) (analyzer d))) docs \<and>
      (\<forall>row \<in> set m. length row = length voc))"
proof -
  have "\<not> is_fitted (LightweightEmbeddings_init f (tfidf_transform analyzer))"
    by (simp add: LightweightEmbeddings_init_def)
  from embed_all_unfitted[OF this, of calls]
  have first: "fst (embed_all (LightweightEmbeddings_init f (tfidf_transform analyzer)) calls) =
     projected f (tfidf_transform analyzer) calls \<and>
   is_fitted (snd (embed_all (LightweightEmbeddings_init f (tfidf_transform analyzer)) calls)) =
     (first_fitted f (tfidf_transform analyzer) calls \<noteq> None) \<and>
   (\<forall>voc. first_fitted f (tfidf_transform analyzer) calls = Some voc \<longrightarrow>
      learned (vectorizer (snd (embed_all (LightweightEmbeddings_init f (tfidf_transform analyzer)) calls))) =
        Some voc)"
    by (simp add: LightweightEmbeddings_init_def)
  have second: "m = map (\<lambda>d. tfidf_row voc (filter (\<lambda>w. w \<in> fst ` set voc) (analyzer d))) docs \<and>
      (\<forall>row \<in> set m. length row = length voc)"
    if "tfidf_transform analyzer voc docs = Inr m" for voc docs m
    using that by (auto simp: tfidf_transform_def tfidf_row_drops length_tfidf_row split: if_splits)
  show ?thesis using first second by blast
qed

theorem embed_documents_fit_once_witness:
  "fst (embed_all (LightweightEmbeddings_init word_fit (tfidf_transform words)) [[], [''cat''], [''dog cat'']]) =
     [Inl (ValueError ''empty vocabulary; perhaps the documents only contain stop words''),
      Inr [[1]], Inr [[1]]] \<and>
   is_fitted (snd (embed_all (LightweightEmbeddings_init word_fit (tfidf_transform words)) [[], [''cat''], [''dog cat'']])) \<and>
   learned (vectorizer (snd (embed_all (LightweightEmbeddings_init word_fit (tfidf_transform words))
      [[], [''cat''], [''dog cat'']]))) = Some [(''cat'', 1)] \<and>
   [[1]] = map (\<lambda>d. tfidf_row [(''cat'', 1)] (filter (\<lambda>w. w \<in> fst ` set [(''cat'', 1::real)]) (words d))) [''dog cat'']"
proof -
  have ff: "first_fitted word_fit (tfidf_transform words) [[], [''cat''], [''dog cat'']] = Some [(''cat'', 1)]"
    by code_simp
  have pr: "projected word_fit (tfidf_transform words) [[], [''cat''], [''dog cat'']] =
     [Inl (ValueError ''empty vocabulary; perhaps the documents only contain stop words''),
      Inr [[1]], Inr [[1]]]"
    by code_simp
  have tr: "tfidf_transform words [(''cat'', 1)] [''dog cat''] = Inr [[1]]"
    by code_simp
  note inst = embed_documents_fit_once[of word_fit words "[[], [''cat''], [''dog cat'']]"]
  have a: "fst (embed_all (LightweightEmbeddings_init word_fit (tfidf_transform words)) [[], [''cat''], [''dog cat'']]) =
     [Inl (ValueError ''empty vocabulary; perhaps the documents only contain stop words''),
      Inr [[1]], Inr [[1]]]"
    using inst[THEN conjunct1] pr by simp
  have b: "is_fitted (snd (embed_all (LightweightEmbeddings_init word_fit (tfidf_transform words)) [[], [''cat''], [''dog cat'']]))"
    using inst[THEN conjunct2, THEN conjunct1] ff by simp
  have c: "learned (vectorizer (snd (embed_all (LightweightEmbeddings_init word_fit (tfidf_transform words))
      [[], [''cat''], [''dog cat'']]))) = Some [(''cat'', 1)]"
    using inst[THEN conjunct2, THEN conjunct2, THEN conjunct1, rule_format, OF ff] .
  have d: "[[1]] = map (\<lambda>d. tfidf_row [(''cat'', 1)] (filter (\<lambda>w. w \<in> fst ` set [(''cat'', 1::real)]) (words d))) [''dog cat'']"
    using inst[THEN conjunct2, THEN conjunct2, THEN conjunct2, rule_format, OF tr] by (rule conjunct1)
  show ?thesis using a b c d by (intro conjI)
qed

text \<open>
  C7: \<^verbatim>\<open>embed_query\<close> on an instance on which no fit has succeeded (a fresh instance,
  or one whose \<^verbatim>\<open>embed_documents\<close> calls all raised) fails with the source's not-fitted
  error, \<^verbatim>\<open>ValueError("Vectorizer not fitted yet")\<close>.
\<close>

theorem embed_query_not_fitted:
  "first_fit f calls = None \<Longrightarrow>
   embed_query (snd (embed_all (LightweightEmbeddings_init f t) calls)) q =
     Inl (ValueError ''Vectorizer not fitted yet'')"
  using embed_all_unfitted[of "LightweightEmbeddings_init f t" calls] first_fit_None_fitted[of f calls t]
  by (simp add: embed_query_def LightweightEmbeddings_init_def)

theorem embed_query_not_fitted_witness:
  "first_fit word_fit [] = None \<and>
   embed_query (LightweightEmbeddings_init word_fit (tfidf_transform words)) ''cat'' =
     Inl (ValueError ''Vectorizer not fitted yet'') \<and>
   first_fit word_fit [[]] = None \<and>
   embed_query (snd (embed_all (LightweightEmbeddings_init word_fit (tfidf_transform words)) [[]])) ''cat'' =
     Inl (ValueError ''Vectorizer not fitted yet'')"
proof -
  have h0: "first_fit word_fit [] = None" by simp
  have h1: "first_fit word_fit [[]] = None" by (simp add: word_fit_def)
  show ?thesis
    using h0 h1 embed_query_not_fitted[OF h0, of "tfidf_transform words" "''cat''"]
      embed_query_not_fitted[OF h1, of "tfidf_transform words" "''cat''"]
    by simp
qed

section \<open>Claims about the persisted index\<close>

text \<open>
  C6: for a document name that is a single path component, on a disk where none of
  \<^verbatim>\<open>data\<close>, the vector store directory and the document's directory is a file and
  \<^verbatim>\<open>vectors.pkl\<close> is not a directory, and when \<^verbatim>\<open>pickle.dump\<close> does not raise,
  \<^verbatim>\<open>save_vectorstore\<close> succeeds. When it has succeeded, \<^verbatim>\<open>load_vectorstore\<close> of the same
  document name returns the index saved, so every search on the loaded index gives the
  result it gives on the saved one. And \<^verbatim>\<open>load_vectorstore\<close> returns \<^verbatim>\<open>None\<close>, not an
  error, when nothing exists at the document's path.
\<close>

theorem save_load_roundtrip:
  "(single_component doc_name \<and> \<not> is_file disk [''data''] \<and> \<not> is_file disk VECTOR_STORE_DIR \<and>
    \<not> is_file disk (child VECTOR_STORE_DIR doc_name) \<and>
    \<not> is_dir disk (child VECTOR_STORE_DIR doc_name @ [''vectors.pkl'']) \<and> dump_error vs = None \<longrightarrow>
      (\<exists>disk'. save_vectorstore dump_error disk vs doc_name = (None, disk'))) \<and>
   (save_vectorstore dump_error disk vs doc_name = (None, disk') \<longrightarrow>
      load_vectorstore disk' doc_name = Inr (PyVectorstore vs) \<and>
      (\<forall>loaded. load_vectorstore disk' doc_name = Inr (PyVectorstore loaded) \<longrightarrow>
         search np_argsort emb q loaded k = search np_argsort emb q vs k)) \<and>
   (\<not> exists disk (child VECTOR_STORE_DIR doc_name) \<longrightarrow> load_vectorstore disk doc_name = Inr PyNone)"
proof (intro conjI impI)
  assume "single_component doc_name \<and> \<not> is_file disk [''data''] \<and> \<not> is_file disk VECTOR_STORE_DIR \<and>
    \<not> is_file disk (child VECTOR_STORE_DIR doc_name) \<and>
    \<not> is_dir disk (child VECTOR_STORE_DIR doc_name @ [''vectors.pkl'']) \<and> dump_error vs = None"
  then show "\<exists>disk'. save_vectorstore dump_error disk vs doc_name = (None, disk')"
    by (intro save_succeeds) simp_all
next
  assume s: "save_vectorstore dump_error disk vs doc_name = (None, disk')"
  show "load_vectorstore disk' doc_name = Inr (PyVectorstore vs)" by (rule save_then_load[OF s])
  then show "\<forall>loaded. load_vectorstore disk' doc_name = Inr (PyVectorstore loaded) \<longrightarrow>
         search np_argsort emb q loaded k = search np_argsort emb q vs k" by simp
next
  assume "\<not> exists disk (child VECTOR_STORE_DIR doc_name)"
  then show "load_vectorstore disk doc_name = Inr PyNone"
    by (simp add: load_vectorstore_def load_vectorstore_try_def)
qed

theorem save_load_roundtrip_witness:
  "(\<exists>disk'. save_vectorstore dump_ok [([''data''], Dir)] \<lparr>vectors = [[1, 0]], texts = [''a'']\<rparr> ''doc'' = (None, disk') \<and>
      load_vectorstore disk' ''doc'' = Inr (PyVectorstore \<lparr>vectors = [[1, 0]], texts = [''a'']\<rparr>)) \<and>
   load_vectorstore [([''data''], Dir)] ''doc'' = Inr PyNone"
proof -
  have pre: "single_component ''doc'' \<and> \<not> is_file [([''data''], Dir)] [''data''] \<and> \<not> is_file [([''data''], Dir)] VECTOR_STORE_DIR \<and>
    \<not> is_file [([''data''], Dir)] (child VECTOR_STORE_DIR ''doc'') \<and>
    \<not> is_dir [([''data''], Dir)] (child VECTOR_STORE_DIR ''doc'' @ [''vectors.pkl'']) \<and>
    dump_ok \<lparr>vectors = [[1, 0]], texts = [''a'']\<rparr> = None"
    by code_simp
  have absent: "\<not> exists [([''data''], Dir)] (child VECTOR_STORE_DIR ''doc'')"
    by code_simp
  from save_load_roundtrip[where dump_error = dump_ok and disk = "[([''data''], Dir)]" and doc_name = "''doc''"
       and vs = "\<lparr>vectors = [[1, 0]], texts = [''a'']\<rparr>", THEN conjunct1, rule_format, OF pre]
  obtain d where d: "save_vectorstore dump_ok [([''data''], Dir)] \<lparr>vectors = [[1, 0]], texts = [''a'']\<rparr> ''doc'' = (None, d)"
    by blast
  have "load_vectorstore d ''doc'' = Inr (PyVectorstore \<lparr>vectors = [[1, 0]], texts = [''a'']\<rparr>)"
    using save_load_roundtrip[where dump_error = dump_ok and disk = "[([''data''], Dir)]" and doc_name = "''doc''"
       and vs = "\<lparr>vectors = [[1, 0]], texts = [''a'']\<rparr>" and disk' = d, THEN conjunct2, THEN conjunct1,
       rule_format, OF d]
    by (rule conjunct1)
  moreover have "load_vectorstore [([''data''], Dir)] ''doc'' = Inr PyNone"
    using save_load_roundtrip[where disk = "[([''data''], Dir)]" and doc_name = "''doc''",
       THEN conjunct2, THEN conjunct2, rule_format, OF absent] .
  ultimately show ?thesis using d by blast
qed

text \<open>
  C10, as the specification states it: \<^verbatim>\<open>load_vectorstore\<close> returns \<^verbatim>\<open>None\<close> rather than
  raising when deserializing the saved index fails for any reason. It does not when
  \<^verbatim>\<open>vectors.pkl\<close> is a pickle whose loading raises \<^verbatim>\<open>SystemExit\<close>: the handler is
  \<^verbatim>\<open>except Exception\<close>, \<^verbatim>\<open>SystemExit\<close> is not of that class, and the exception leaves
  the call.
\<close>

theorem load_vectorstore_exit_counterexample:
  "load_vectorstore [([''data''], Dir), ([''data'', ''vectorstore''], Dir), ([''data'', ''vectorstore'', ''doc''], Dir),
        ([''data'', ''vectorstore'', ''doc'', ''vectors.pkl''], File (PickleExits ''1''))] ''doc'' =
     Inl (SystemExit ''1'')"
  by code_simp

text \<open>
  C10, amended: \<^verbatim>\<open>load_vectorstore\<close> returns \<^verbatim>\<open>None\<close> whenever the body of its \<^verbatim>\<open>try\<close>
  raises an exception of the class \<^verbatim>\<open>Exception\<close>, and lets an exception outside that
  class through. So it returns \<^verbatim>\<open>None\<close> when the document's directory does not exist,
  when it exists without \<^verbatim>\<open>vectors.pkl\<close>, and when \<^verbatim>\<open>vectors.pkl\<close> is a directory; and
  when \<^verbatim>\<open>vectors.pkl\<close> is a file in an existing directory, it returns the object the
  file unpickles to, whatever it is, \<^verbatim>\<open>None\<close> when unpickling raises an \<^verbatim>\<open>Exception\<close>,
  and raises when unpickling raises \<^verbatim>\<open>SystemExit\<close>.
\<close>

theorem load_vectorstore_none_on_exception:
  "(\<forall>e. load_vectorstore_try disk doc_name = Inl (Exception e) \<longrightarrow> load_vectorstore disk doc_name = Inr PyNone) \<and>
   (\<forall>m. load_vectorstore_try disk doc_name = Inl (SystemExit m) \<longrightarrow>
      load_vectorstore disk doc_name = Inl (SystemExit m)) \<and>
   (\<not> exists disk (child VECTOR_STORE_DIR doc_name) \<longrightarrow> load_vectorstore disk doc_name = Inr PyNone) \<and>
   (exists disk (child VECTOR_STORE_DIR doc_name) \<and>
    \<not> exists disk (child VECTOR_STORE_DIR doc_name @ [''vectors.pkl'']) \<longrightarrow>
      load_vectorstore disk doc_name = Inr PyNone) \<and>
   (is_dir disk (child VECTOR_STORE_DIR doc_name @ [''vectors.pkl'']) \<longrightarrow>
      load_vectorstore disk doc_name = Inr PyNone) \<and>
   (\<forall>c. exists disk (child VECTOR_STORE_DIR doc_name) \<and>
      stat disk (child VECTOR_STORE_DIR doc_name @ [''vectors.pkl'']) = Some (File c) \<longrightarrow>
      load_vectorstore disk doc_name =
        (case pickle_load c of
           Inl (Exception e) \<Rightarrow> Inr PyNone
         | Inl (SystemExit m) \<Rightarrow> Inl (SystemExit m)
         | Inr v \<Rightarrow> Inr v))"
  by (auto simp: load_vectorstore_def load_vectorstore_try_def Let_def exists_def is_dir_def read_file_def
      split: sum.splits raised.splits)

theorem load_vectorstore_none_on_exception_witness:
  "load_vectorstore [([''data''], Dir), ([''data'', ''vectorstore''], Dir), ([''data'', ''vectorstore'', ''doc''], Dir),
        ([''data'', ''vectorstore'', ''doc'', ''vectors.pkl''], File (Raw ''garbage''))] ''doc'' = Inr PyNone \<and>
   load_vectorstore [([''data''], Dir), ([''data'', ''vectorstore''], Dir), ([''data'', ''vectorstore'', ''doc''], Dir),
        ([''data'', ''vectorstore'', ''doc'', ''vectors.pkl''], File (Pickled (PyOther ''a list'')))] ''doc'' =
     Inr (PyOther ''a list'') \<and>
   load_vectorstore [([''data''], Dir), ([''data'', ''vectorstore''], Dir), ([''data'', ''vectorstore'', ''doc''], Dir)] ''doc'' = Inr PyNone \<and>
   load_vectorstore [([''data''], Dir)] ''doc'' = Inr PyNone"
proof -
  let ?g = "[([''data''], Dir), ([''data'', ''vectorstore''], Dir), ([''data'', ''vectorstore'', ''doc''], Dir),
        ([''data'', ''vectorstore'', ''doc'', ''vectors.pkl''], File (Raw ''garbage''))]"
  let ?o = "[([''data''], Dir), ([''data'', ''vectorstore''], Dir), ([''data'', ''vectorstore'', ''doc''], Dir),
        ([''data'', ''vectorstore'', ''doc'', ''vectors.pkl''], File (Pickled (PyOther ''a list'')))]"
  let ?e = "[([''data''], Dir), ([''data'', ''vectorstore''], Dir), ([''data'', ''vectorstore'', ''doc''], Dir)]"
  have g: "load_vectorstore_try ?g ''doc'' = Inl (Exception (ValueError ''could not unpickle''))"
    by code_simp
  have o: "exists ?o (child VECTOR_STORE_DIR ''doc'') \<and>
      stat ?o (child VECTOR_STORE_DIR ''doc'' @ [''vectors.pkl'']) = Some (File (Pickled (PyOther ''a list'')))"
    by code_simp
  have e: "exists ?e (child VECTOR_STORE_DIR ''doc'') \<and> \<not> exists ?e (child VECTOR_STORE_DIR ''doc'' @ [''vectors.pkl''])"
    by code_simp
  have n: "\<not> exists [([''data''], Dir)] (child VECTOR_STORE_DIR ''doc'')"
    by code_simp
  have 1: "load_vectorstore ?g ''doc'' = Inr PyNone"
    using load_vectorstore_none_on_exception[of ?g "''doc''", THEN conjunct1, rule_format, OF g] .
  have 2: "load_vectorstore ?o ''doc'' = Inr (PyOther ''a list'')"
    using load_vectorstore_none_on_exception[of ?o "''doc''", THEN conjunct2, THEN conjunct2, THEN conjunct2,
        THEN conjunct2, THEN conjunct2, rule_format, OF o] by simp
  have 3: "load_vectorstore ?e ''doc'' = Inr PyNone"
    using load_vectorstore_none_on_exception[of ?e "''doc''", THEN conjunct2, THEN conjunct2, THEN conjunct2,
        THEN conjunct1, rule_format, OF e] .
  have 4: "load_vectorstore [([''data''], Dir)] ''doc'' = Inr PyNone"
    using load_vectorstore_none_on_exception[of "[([''data''], Dir)]" "''doc''", THEN conjunct2, THEN conjunct2,
        THEN conjunct1, rule_format, OF n] .
  show ?thesis using 1 2 3 4 by (intro conjI)
qed

section \<open>Claims about the conversation store\<close>

text \<open>
  C4, as the specification states it: for a document with stored history, \<^verbatim>\<open>export_chat\<close>
  with a format other than \<^verbatim>\<open>json\<close> and \<^verbatim>\<open>csv\<close> fails with an unsupported-format
  error. It does not: the \<^verbatim>\<open>ValueError\<close> raised in the body is caught by the method's own
  handler, and the call returns a text.
\<close>

theorem export_chat_unsupported_counterexample:
  "export_chat json_dumps_stub
     \<lparr>storage_path = [''data'', ''chat_history.json''],
      history = [(''doc'', \<lparr>messages = [], created_at = ''t0'', updated_at = ''t0''\<rparr>)]\<rparr>
     ''doc'' ''xml'' = Inr ''Export error: Unsupported format: xml''"
  by (simp add: export_chat_def export_chat_try_def lower_def lower_char_def)

text \<open>
  C4, amended: for a document with stored history, \<^verbatim>\<open>export_chat\<close> never raises. With
  format \<^verbatim>\<open>json\<close> (in any letter case) it returns what \<^verbatim>\<open>json.dumps\<close> gives for the
  document's entry (or the text \<^verbatim>\<open>Export error: ...\<close> if that raises), with \<^verbatim>\<open>csv\<close> the
  header line and one quoted row per message, and with any other format the text
  \<^verbatim>\<open>Export error: Unsupported format: <format>\<close>.
\<close>

theorem export_chat_formats:
  assumes "map_of (history self) pdf_name = Some chat_data"
  shows "export_chat json_dumps self pdf_name format =
     (if lower format = ''json''
      then (case json_dumps chat_data of Inl e \<Rightarrow> Inr (''Export error: '' @ str e) | Inr s \<Rightarrow> Inr s)
      else if lower format = ''csv''
      then Inr (join [CHR 0x0A] (''Role,Content,Timestamp'' # map csv_line (messages chat_data)))
      else Inr (''Export error: Unsupported format: '' @ format))"
  using assms by (simp add: export_chat_def export_chat_try_def)

theorem export_chat_formats_witness:
  "export_chat json_dumps_stub
     \<lparr>storage_path = [''data'', ''chat_history.json''],
      history = [(''doc'', \<lparr>messages = [\<lparr>role = ''user'', content = ''hi'', timestamp = ''t0'', metadata = JObj []\<rparr>],
                  created_at = ''t0'', updated_at = ''t0''\<rparr>)]\<rparr>
     ''doc'' ''CSV'' = Inr (''Role,Content,Timestamp'' @ [CHR 0x0A] @ [CHR 0x22] @ ''user'' @ [CHR 0x22] @ '','' @ [CHR 0x22] @ ''hi'' @ [CHR 0x22] @ '','' @ [CHR 0x22] @ ''t0'' @ [CHR 0x22])"
  using export_chat_formats[of "\<lparr>storage_path = [''data'', ''chat_history.json''],
      history = [(''doc'', \<lparr>messages = [\<lparr>role = ''user'', content = ''hi'', timestamp = ''t0'', metadata = JObj []\<rparr>],
                  created_at = ''t0'', updated_at = ''t0''\<rparr>)]\<rparr>" "''doc''" _ json_dumps_stub "''CSV''"]
  by (simp add: lower_def lower_char_def csv_line_def double_quotes_def)

text \<open>
  C5: constructing the store on a file that does not parse must not raise. The handler of
  \<^verbatim>\<open>_load_history\<close> copies the file without a guard of its own (\<^verbatim>\<open>_create_backup\<close> has
  one), so an exception of \<^verbatim>\<open>shutil.copy2\<close> leaves the constructor. With a storage file
  that itself ends in \<^verbatim>\<open>.corrupted\<close> the copy's source and destination are the same
  file, and the constructor raises.
\<close>

theorem ChatManager_init_same_file:
  "ChatManager_init [''data'', ''chat.corrupted'']
     [([''data''], Dir), ([''data'', ''chat.corrupted''], File (Raw ''{oops''))] =
   Inl (OSError ''src and dst are the same file'')"
  by (simp add: ChatManager_init_def mkdir_parents_def stat_def load_history_def load_history_try_def
      exists_def read_file_def with_suffix_def stem_def suffix_def after_dot_def copy2_def)

section \<open>Claims about the retrieval engine\<close>

text \<open>
  C2, as the specification states it: an ingestion that fails at any step leaves any
  previously persisted index of the document untouched. It fails when the step that
  raises is the summary, which comes after the index has been saved: the caller gets the
  error dictionary, and the index on disk is the new one, not the one saved before.
\<close>

theorem process_document_index_counterexample:
  "fst (process_document (demo_collaborators summarize_down dump_ok) demo_engine (Inr ''cat'') ''doc.txt'') =
     Inr (StatusError ''LLM unavailable'') \<and>
   load_vectorstore (filesystem demo_engine) ''doc'' =
     Inr (PyVectorstore \<lparr>vectors = [[1]], texts = [''old'']\<rparr>) \<and>
   load_vectorstore (filesystem (snd (process_document (demo_collaborators summarize_down dump_ok) demo_engine
        (Inr ''cat'') ''doc.txt''))) ''doc'' = Inr (PyVectorstore \<lparr>vectors = [[1]], texts = [''cat'']\<rparr>)"
  by code_simp

text \<open>
  C2, amended, for a staged path that is not a directory. When a step of the pipeline
  raises, \<^verbatim>\<open>process_document\<close> returns the error dictionary with the exception's
  message, the staged file is gone afterwards and the conversation store is as before.
  Unless the step that raised is \<^verbatim>\<open>pickle.dump\<close> or the summary, every other path of
  the disk (any index saved before among them) is as before, except that a path that did
  not exist may have become an empty directory. (\<^verbatim>\<open>pickle.dump\<close> is reached when the
  index has been built, its directory made and \<^verbatim>\<open>vectors.pkl\<close> opened; the summary,
  when the index has been saved.) When \<^verbatim>\<open>pickle.dump\<close> raises,
  \<^verbatim>\<open>vectors.pkl\<close>, emptied when it was opened for writing, holds only the bytes written
  until then, and an index saved before can no longer be loaded. When the summary raises,
  the index built by this ingestion is on disk in place of any saved before.
\<close>

theorem process_document_failure:
  assumes "stat (filesystem self) (child PDF_UPLOAD_DIR (sanitize_filename filename)) \<noteq> Some Dir"
  shows
   "(\<forall>e s1. process_document_try lib self upload filename = (Inl e, s1) \<longrightarrow>
       (\<exists>self'. process_document lib self upload filename = (Inr (StatusError (str e)), self') \<and>
          stat (filesystem self') (child PDF_UPLOAD_DIR (sanitize_filename filename)) = None \<and>
          chat_manager self' = chat_manager self)) \<and>
    (\<forall>e s1. process_document_try lib self upload filename = (Inl e, s1) \<and>
       (\<forall>tx pages chunks vs s2 d1.
          process_document_build lib self upload filename = (Inr (tx, pages, chunks, vs), s2) \<and>
          mkdir_parents (filesystem s2) (child VECTOR_STORE_DIR (doc_name_of (sanitize_filename filename))) = Inr d1 \<and>
          stat d1 (child VECTOR_STORE_DIR (doc_name_of (sanitize_filename filename)) @ [''vectors.pkl'']) \<noteq> Some Dir \<longrightarrow>
          pickle_dump_error lib vs = None) \<and>
       (\<forall>tx pages chunks vs s2 d3.
          process_document_build lib self upload filename = (Inr (tx, pages, chunks, vs), s2) \<and>
          save_vectorstore (pickle_dump_error lib) (filesystem s2) vs (doc_name_of (sanitize_filename filename)) =
            (None, d3) \<longrightarrow>
          (\<forall>e'. summarize_pdf lib tx \<noteq> Inl e')) \<longrightarrow>
       (\<exists>self'. process_document lib self upload filename = (Inr (StatusError (str e)), self') \<and>
          (\<forall>p. p \<noteq> child PDF_UPLOAD_DIR (sanitize_filename filename) \<longrightarrow>
             stat (filesystem self') p = stat (filesystem self) p \<or>
             (stat (filesystem self) p = None \<and> stat (filesystem self') p = Some Dir)))) \<and>
    (\<forall>tx pages chunks vs s1 d1 e written.
       process_document_build lib self upload filename = (Inr (tx, pages, chunks, vs), s1) \<and>
       mkdir_parents (filesystem s1) (child VECTOR_STORE_DIR (doc_name_of (sanitize_filename filename))) = Inr d1 \<and>
       stat d1 (child VECTOR_STORE_DIR (doc_name_of (sanitize_filename filename)) @ [''vectors.pkl'']) \<noteq> Some Dir \<and>
       pickle_dump_error lib vs = Some (e, written) \<longrightarrow>
       (\<exists>self'. process_document lib self upload filename =
            (Inr (StatusError (''Failed to save vectorstore: '' @ str e)), self') \<and>
          stat (filesystem self')
            (child VECTOR_STORE_DIR (doc_name_of (sanitize_filename filename)) @ [''vectors.pkl'']) =
            Some (File (Raw written)) \<and>
          load_vectorstore (filesystem self') (doc_name_of (sanitize_filename filename)) = Inr PyNone)) \<and>
    (\<forall>tx pages chunks vs s1 d3 e.
       process_document_build lib self upload filename = (Inr (tx, pages, chunks, vs), s1) \<and>
       save_vectorstore (pickle_dump_error lib) (filesystem s1) vs (doc_name_of (sanitize_filename filename)) =
         (None, d3) \<and>
       summarize_pdf lib tx = Inl e \<longrightarrow>
       (\<exists>self'. process_document lib self upload filename = (Inr (StatusError (str e)), self') \<and>
          load_vectorstore (filesystem self') (doc_name_of (sanitize_filename filename)) =
            Inr (PyVectorstore vs)))"
proof (intro conjI allI impI)
  let ?dp = "child PDF_UPLOAD_DIR (sanitize_filename filename)"
  let ?dn = "doc_name_of (sanitize_filename filename)"
  let ?sp = "child VECTOR_STORE_DIR ?dn"
  let ?vf = "?sp @ [''vectors.pkl'']"
  {
    fix e s1
    assume t: "process_document_try lib self upload filename = (Inl e, s1)"
    have cm: "chat_manager s1 = chat_manager self" using t by (rule process_document_try_chat)
    have nd: "stat (filesystem s1) ?dp \<noteq> Some Dir" using t assms by (rule process_document_try_staged)
    from process_document_handler[OF t nd] cm
    show "\<exists>self'. process_document lib self upload filename = (Inr (StatusError (str e)), self') \<and>
          stat (filesystem self') ?dp = None \<and> chat_manager self' = chat_manager self"
      by auto
  }
  {
    fix e s1
    assume a: "process_document_try lib self upload filename = (Inl e, s1) \<and>
       (\<forall>tx pages chunks vs s2 d1.
          process_document_build lib self upload filename = (Inr (tx, pages, chunks, vs), s2) \<and>
          mkdir_parents (filesystem s2) ?sp = Inr d1 \<and> stat d1 ?vf \<noteq> Some Dir \<longrightarrow>
          pickle_dump_error lib vs = None) \<and>
       (\<forall>tx pages chunks vs s2 d3.
          process_document_build lib self upload filename = (Inr (tx, pages, chunks, vs), s2) \<and>
          save_vectorstore (pickle_dump_error lib) (filesystem s2) vs ?dn = (None, d3) \<longrightarrow>
          (\<forall>e'. summarize_pdf lib tx \<noteq> Inl e'))"
    then have t: "process_document_try lib self upload filename = (Inl e, s1)" by simp
    have nd: "stat (filesystem s1) ?dp \<noteq> Some Dir" using t assms by (rule process_document_try_staged)
    obtain b s2 where b: "process_document_build lib self upload filename = (b, s2)"
      by (cases "process_document_build lib self upload filename")
    have fr: "stat (filesystem s1) p = stat (filesystem self) p \<or>
             (stat (filesystem self) p = None \<and> stat (filesystem s1) p = Some Dir)" if "p \<noteq> ?dp" for p
    proof (cases b)
      case (Inl x)
      then have "s1 = s2" using t b by (simp add: process_document_try_def)
      then show ?thesis using process_document_build_frame(2)[OF b that] by simp
    next
      case (Inr x)
      obtain tx pages chunks vs where x: "x = (tx, pages, chunks, vs)" by (cases x) auto
      have bx: "process_document_build lib self upload filename = (Inr (tx, pages, chunks, vs), s2)"
        using b Inr x by simp
      have dump: "pickle_dump_error lib vs = None"
        if "mkdir_parents (filesystem s2) ?sp = Inr d1" "stat d1 ?vf \<noteq> Some Dir" for d1
        using a bx that by blast
      have summ: "\<forall>e'. summarize_pdf lib tx \<noteq> Inl e'"
        if "save_vectorstore (pickle_dump_error lib) (filesystem s2) vs ?dn = (None, d3)" for d3
        using a bx that by blast
      obtain sr d3 where sv: "save_vectorstore (pickle_dump_error lib) (filesystem s2) vs ?dn = (sr, d3)"
        by (cases "save_vectorstore (pickle_dump_error lib) (filesystem s2) vs ?dn")
      have "sr \<noteq> None \<and> filesystem s1 = d3"
      proof (cases sr)
        case None
        with sv summ[of d3] have "\<forall>e'. summarize_pdf lib tx \<noteq> Inl e'" by simp
        then show ?thesis using t bx sv None
          by (cases "summarize_pdf lib tx") (auto simp: process_document_try_def)
      next
        case (Some e')
        then show ?thesis using t bx sv by (auto simp: process_document_try_def)
      qed
      then obtain e' where sv': "save_vectorstore (pickle_dump_error lib) (filesystem s2) vs ?dn = (Some e', d3)"
        and d3: "filesystem s1 = d3"
        using sv by auto
      have "stat (filesystem s1) p = stat (filesystem s2) p \<or>
             (stat (filesystem s2) p = None \<and> stat (filesystem s1) p = Some Dir)"
        using save_vectorstore_fails_frame[OF sv' dump, of _ p] d3 by simp
      then show ?thesis using process_document_build_frame(2)[OF b that] by simp
    qed
    from process_document_handler[OF t nd] obtain self' where
      r: "process_document lib self upload filename = (Inr (StatusError (str e)), self')"
      and h: "\<forall>p. p \<noteq> ?dp \<longrightarrow> stat (filesystem self') p = stat (filesystem s1) p"
      by auto
    have "stat (filesystem self') p = stat (filesystem self) p \<or>
             (stat (filesystem self) p = None \<and> stat (filesystem self') p = Some Dir)" if "p \<noteq> ?dp" for p
      using fr[OF that] h that by simp
    with r
    show "\<exists>self'. process_document lib self upload filename = (Inr (StatusError (str e)), self') \<and>
          (\<forall>p. p \<noteq> ?dp \<longrightarrow> stat (filesystem self') p = stat (filesystem self) p \<or>
             (stat (filesystem self) p = None \<and> stat (filesystem self') p = Some Dir))"
      by blast
  }
  {
    fix tx pages chunks vs s1 d1 e written
    assume a: "process_document_build lib self upload filename = (Inr (tx, pages, chunks, vs), s1) \<and>
       mkdir_parents (filesystem s1) ?sp = Inr d1 \<and> stat d1 ?vf \<noteq> Some Dir \<and>
       pickle_dump_error lib vs = Some (e, written)"
    let ?d2 = "AList.update ?vf (File (Raw written)) (AList.update ?vf (File (Raw [])) d1)"
    have dir: "stat d1 ?sp = Some Dir"
      using a mkdir_parents_makes_dir[of "filesystem s1" ?sp d1] by simp
    have w: "write_file d1 ?vf (Raw []) = Inr (AList.update ?vf (File (Raw [])) d1)"
      using a dir by (simp add: write_file_def)
    have t: "process_document_try lib self upload filename =
        (Inl (RuntimeError (''Failed to save vectorstore: '' @ str e)), s1\<lparr>filesystem := ?d2\<rparr>)"
      using a w by (simp add: process_document_try_def save_vectorstore_def save_vectorstore_try_def)
    have nd: "stat (filesystem (s1\<lparr>filesystem := ?d2\<rparr>)) ?dp \<noteq> Some Dir"
      using t assms by (rule process_document_try_staged)
    from process_document_handler[OF t nd] obtain self' where
      r: "process_document lib self upload filename =
            (Inr (StatusError (''Failed to save vectorstore: '' @ str e)), self')"
      and fr: "\<forall>p. p \<noteq> ?dp \<longrightarrow> stat (filesystem self') p = stat ?d2 p"
      by auto
    have f1: "stat (filesystem self') ?vf = Some (File (Raw written))"
      using fr upload_not_index(2)[of "sanitize_filename filename" ?dn] by (simp add: stat_update)
    have "stat (filesystem self') ?sp = stat ?d2 ?sp"
      using fr upload_not_index(1)[of "sanitize_filename filename" ?dn] by metis
    then have f2: "stat (filesystem self') ?sp = Some Dir" using dir by (simp add: stat_update)
    have "load_vectorstore (filesystem self') ?dn = Inr PyNone"
      using f1 f2 by (simp add: load_vectorstore_file)
    with r f1
    show "\<exists>self'. process_document lib self upload filename =
            (Inr (StatusError (''Failed to save vectorstore: '' @ str e)), self') \<and>
          stat (filesystem self') ?vf = Some (File (Raw written)) \<and>
          load_vectorstore (filesystem self') ?dn = Inr PyNone"
      by blast
  }
  {
    fix tx pages chunks vs s1 d3 e
    assume a: "process_document_build lib self upload filename = (Inr (tx, pages, chunks, vs), s1) \<and>
       save_vectorstore (pickle_dump_error lib) (filesystem s1) vs ?dn = (None, d3) \<and>
       summarize_pdf lib tx = Inl e"
    have t: "process_document_try lib self upload filename = (Inl e, s1\<lparr>filesystem := d3\<rparr>)"
      using a by (simp add: process_document_try_def)
    have nd: "stat (filesystem (s1\<lparr>filesystem := d3\<rparr>)) ?dp \<noteq> Some Dir"
      using t assms by (rule process_document_try_staged)
    have sv: "save_vectorstore (pickle_dump_error lib) (filesystem s1) vs ?dn = (None, d3)"
      using a by simp
    from process_document_handler[OF t nd] obtain self' where
      r: "process_document lib self upload filename = (Inr (StatusError (str e)), self')"
      and fr: "\<forall>p. p \<noteq> ?dp \<longrightarrow> stat (filesystem self') p = stat d3 p"
      by auto
    have "stat (filesystem self') ?sp = Some Dir"
      using fr save_result_stat(1)[OF sv] upload_not_index(1)[of "sanitize_filename filename" ?dn]
      by (metis)
    moreover have "stat (filesystem self') ?vf = Some (File (Pickled (PyVectorstore vs)))"
      using fr save_result_stat(2)[OF sv] upload_not_index(2)[of "sanitize_filename filename" ?dn]
      by (metis)
    ultimately have "load_vectorstore (filesystem self') ?dn = Inr (PyVectorstore vs)"
      by (simp add: load_vectorstore_file)
    with r show "\<exists>self'. process_document lib self upload filename = (Inr (StatusError (str e)), self') \<and>
          load_vectorstore (filesystem self') ?dn = Inr (PyVectorstore vs)"
      by blast
  }
qed

theorem process_document_failure_witness:
  "(\<exists>self'. process_document (demo_collaborators summarize_ok dump_ok) demo_engine (Inr ''  '') ''doc.txt'' =
       (Inr (StatusError ''Failed to load document data/pdfs/doc.txt: No text found in file''), self') \<and>
     stat (filesystem self') [''data'', ''vectorstore'', ''doc'', ''vectors.pkl''] =
       Some (File (Pickled (PyVectorstore \<lparr>vectors = [[1]], texts = [''old'']\<rparr>)))) \<and>
   (\<exists>self'. process_document (demo_collaborators summarize_ok dump_disk_full) demo_engine (Inr ''cat'') ''doc.txt'' =
       (Inr (StatusError ''Failed to save vectorstore: No space left on device''), self') \<and>
     load_vectorstore (filesystem self') ''doc'' = Inr PyNone) \<and>
   (\<exists>self'. process_document (demo_collaborators summarize_down dump_ok) demo_engine (Inr ''cat'') ''doc.txt'' =
       (Inr (StatusError ''LLM unavailable''), self') \<and>
     load_vectorstore (filesystem self') ''doc'' =
       Inr (PyVectorstore \<lparr>vectors = [[1]], texts = [''cat'']\<rparr>))"
proof -
  have dp: "child PDF_UPLOAD_DIR (sanitize_filename ''doc.txt'') = [''data'', ''pdfs'', ''doc.txt'']"
    and dn: "doc_name_of (sanitize_filename ''doc.txt'') = ''doc''"
    by code_simp+
  have nd: "stat (filesystem demo_engine) (child PDF_UPLOAD_DIR (sanitize_filename ''doc.txt'')) \<noteq> Some Dir"
    by code_simp
  have old: "stat (filesystem demo_engine) [''data'', ''vectorstore'', ''doc'', ''vectors.pkl''] =
       Some (File (Pickled (PyVectorstore \<lparr>vectors = [[1]], texts = [''old'']\<rparr>)))"
    by code_simp
  obtain s1 where b1: "process_document_build (demo_collaborators summarize_ok dump_ok) demo_engine (Inr ''  '') ''doc.txt'' =
     (Inl (RuntimeError ''Failed to load document data/pdfs/doc.txt: No text found in file''), s1)"
    using demo_try_blank by (metis prod.collapse)
  have b2: "process_document_build (demo_collaborators summarize_down dump_ok) demo_engine (Inr ''cat'') ''doc.txt'' =
     (Inr (''cat'', 1, [''cat''], \<lparr>vectors = [[1]], texts = [''cat'']\<rparr>),
      snd (process_document_build (demo_collaborators summarize_down dump_ok) demo_engine (Inr ''cat'') ''doc.txt''))"
    using demo_build(1) by (metis prod.collapse)
  have "fst (save_vectorstore (pickle_dump_error (demo_collaborators summarize_down dump_ok))
        (filesystem (snd (process_document_build (demo_collaborators summarize_down dump_ok) demo_engine (Inr ''cat'') ''doc.txt'')))
        \<lparr>vectors = [[1]], texts = [''cat'']\<rparr> (doc_name_of (sanitize_filename ''doc.txt''))) = None"
    by code_simp
  then have sv: "save_vectorstore (pickle_dump_error (demo_collaborators summarize_down dump_ok))
        (filesystem (snd (process_document_build (demo_collaborators summarize_down dump_ok) demo_engine (Inr ''cat'') ''doc.txt'')))
        \<lparr>vectors = [[1]], texts = [''cat'']\<rparr> (doc_name_of (sanitize_filename ''doc.txt'')) =
      (None, snd (save_vectorstore (pickle_dump_error (demo_collaborators summarize_down dump_ok))
        (filesystem (snd (process_document_build (demo_collaborators summarize_down dump_ok) demo_engine (Inr ''cat'') ''doc.txt'')))
        \<lparr>vectors = [[1]], texts = [''cat'']\<rparr> (doc_name_of (sanitize_filename ''doc.txt''))))"
    by (metis prod.collapse)
  have sd: "summarize_pdf (demo_collaborators summarize_down dump_ok) ''cat'' = Inl (RuntimeError ''LLM unavailable'')"
    by (simp add: demo_collaborators_def summarize_down_def)
  have t1: "process_document_try (demo_collaborators summarize_ok dump_ok) demo_engine (Inr ''  '') ''doc.txt'' =
     (Inl (RuntimeError ''Failed to load document data/pdfs/doc.txt: No text found in file''), s1)"
    using b1 by (simp add: process_document_try_def)
  have v1: "\<forall>tx pages chunks vs s2 d1.
      process_document_build (demo_collaborators summarize_ok dump_ok) demo_engine (Inr ''  '') ''doc.txt'' =
        (Inr (tx, pages, chunks, vs), s2) \<and>
      mkdir_parents (filesystem s2) (child VECTOR_STORE_DIR (doc_name_of (sanitize_filename ''doc.txt''))) = Inr d1 \<and>
      stat d1 (child VECTOR_STORE_DIR (doc_name_of (sanitize_filename ''doc.txt'')) @ [''vectors.pkl'']) \<noteq> Some Dir \<longrightarrow>
      pickle_dump_error (demo_collaborators summarize_ok dump_ok) vs = None"
    using b1 by simp
  have v2: "\<forall>tx pages chunks vs s2 d3.
      process_document_build (demo_collaborators summarize_ok dump_ok) demo_engine (Inr ''  '') ''doc.txt'' =
        (Inr (tx, pages, chunks, vs), s2) \<and>
      save_vectorstore (pickle_dump_error (demo_collaborators summarize_ok dump_ok)) (filesystem s2) vs
        (doc_name_of (sanitize_filename ''doc.txt'')) = (None, d3) \<longrightarrow>
      (\<forall>e'. summarize_pdf (demo_collaborators summarize_ok dump_ok) tx \<noteq> Inl e')"
    using b1 by simp
  note early = process_document_failure[OF nd, where lib = "demo_collaborators summarize_ok dump_ok"
      and upload = "Inr ''  ''", THEN conjunct2, THEN conjunct1, rule_format, OF conjI[OF t1 conjI[OF v1 v2]]]
  note late = process_document_failure[OF nd, where lib = "demo_collaborators summarize_down dump_ok"
      and upload = "Inr ''cat''", THEN conjunct2, THEN conjunct2, THEN conjunct2, rule_format,
      OF conjI[OF b2 conjI[OF sv sd]]]
  from early obtain s where
    r: "process_document (demo_collaborators summarize_ok dump_ok) demo_engine (Inr ''  '') ''doc.txt'' =
       (Inr (StatusError ''Failed to load document data/pdfs/doc.txt: No text found in file''), s)"
    and fr: "\<forall>p. p \<noteq> [''data'', ''pdfs'', ''doc.txt''] \<longrightarrow>
         stat (filesystem s) p = stat (filesystem demo_engine) p \<or>
         (stat (filesystem demo_engine) p = None \<and> stat (filesystem s) p = Some Dir)"
    unfolding dp by auto
  have "stat (filesystem s) [''data'', ''vectorstore'', ''doc'', ''vectors.pkl''] =
       Some (File (Pickled (PyVectorstore \<lparr>vectors = [[1]], texts = [''old'']\<rparr>)))"
    using fr[rule_format, of "[''data'', ''vectorstore'', ''doc'', ''vectors.pkl'']"] old by simp
  with r have first: "\<exists>self'. process_document (demo_collaborators summarize_ok dump_ok) demo_engine (Inr ''  '') ''doc.txt'' =
       (Inr (StatusError ''Failed to load document data/pdfs/doc.txt: No text found in file''), self') \<and>
     stat (filesystem self') [''data'', ''vectorstore'', ''doc'', ''vectors.pkl''] =
       Some (File (Pickled (PyVectorstore \<lparr>vectors = [[1]], texts = [''old'']\<rparr>)))"
    by blast
  have second: "\<exists>self'. process_document (demo_collaborators summarize_down dump_ok) demo_engine (Inr ''cat'') ''doc.txt'' =
       (Inr (StatusError ''LLM unavailable''), self') \<and>
     load_vectorstore (filesystem self') ''doc'' =
       Inr (PyVectorstore \<lparr>vectors = [[1]], texts = [''cat'']\<rparr>)"
    using late unfolding dn by simp
  have b3: "process_document_build (demo_collaborators summarize_ok dump_disk_full) demo_engine (Inr ''cat'') ''doc.txt'' =
     (Inr (''cat'', 1, [''cat''], \<lparr>vectors = [[1]], texts = [''cat'']\<rparr>),
      snd (process_document_build (demo_collaborators summarize_ok dump_disk_full) demo_engine (Inr ''cat'') ''doc.txt''))"
    using demo_build(2) by (metis prod.collapse)
  obtain d1 where mk: "mkdir_parents
          (filesystem (snd (process_document_build (demo_collaborators summarize_ok dump_disk_full) demo_engine
             (Inr ''cat'') ''doc.txt'')))
          (child VECTOR_STORE_DIR (doc_name_of (sanitize_filename ''doc.txt''))) = Inr d1"
    and op: "stat d1 (child VECTOR_STORE_DIR (doc_name_of (sanitize_filename ''doc.txt'')) @ [''vectors.pkl'']) \<noteq> Some Dir"
    using demo_open by (auto split: sum.splits)
  have full: "pickle_dump_error (demo_collaborators summarize_ok dump_disk_full) \<lparr>vectors = [[1]], texts = [''cat'']\<rparr> =
      Some (OSError ''No space left on device'', [CHR 0x80, CHR 0x04])"
    by (simp add: demo_collaborators_def dump_disk_full_def)
  note dumped = process_document_failure[OF nd, where lib = "demo_collaborators summarize_ok dump_disk_full"
      and upload = "Inr ''cat''", THEN conjunct2, THEN conjunct2, THEN conjunct1, rule_format,
      OF conjI[OF b3 conjI[OF mk conjI[OF op full]]]]
  have third: "\<exists>self'. process_document (demo_collaborators summarize_ok dump_disk_full) demo_engine (Inr ''cat'') ''doc.txt'' =
       (Inr (StatusError ''Failed to save vectorstore: No space left on device''), self') \<and>
     load_vectorstore (filesystem self') ''doc'' = Inr PyNone"
    using dumped unfolding dn by auto
  show ?thesis using first third second by (intro conjI)
qed

text \<open>
  C9, as the specification states it: \<^verbatim>\<open>delete_pdf\<close> on a document that has no stored
  file, no index and no chat history is a no-op, and calling it twice leaves the same
  state as calling it once. It is not: \<^verbatim>\<open>clear_history\<close> first copies the conversation
  file to a backup named after the clock, so each call leaves one more file on disk.
\<close>

theorem delete_pdf_backup_counterexample:
  "fst (delete_pdf demo_engine ''ghost'' ''20240101_000000'') = True \<and>
   stat (filesystem demo_engine) [''data'', ''chat_history.backup_20240101_000000''] = None \<and>
   stat (filesystem (snd (delete_pdf demo_engine ''ghost'' ''20240101_000000'')))
     [''data'', ''chat_history.backup_20240101_000000''] = Some (File (JsonDoc demo_history)) \<and>
   stat (filesystem (snd (delete_pdf demo_engine ''ghost'' ''20240101_000000'')))
     [''data'', ''chat_history.backup_20240101_000001''] = None \<and>
   stat (filesystem (snd (delete_pdf (snd (delete_pdf demo_engine ''ghost'' ''20240101_000000''))
        ''ghost'' ''20240101_000001'')))
     [''data'', ''chat_history.backup_20240101_000001''] = Some (File (JsonDoc demo_history))"
  by code_simp

text \<open>
  C9, amended, for a conversation store at its default path and a document name that is
  a single path component without two adjacent asterisks. When \<^verbatim>\<open>delete_pdf\<close> answers
  \<^verbatim>\<open>True\<close>, the document's index can no longer be loaded and its conversation log is
  gone; a second call answers \<^verbatim>\<open>True\<close> again and changes nothing but the backup it
  writes. On a document with no stored file (no entry of the upload directory matches the
  pattern made of the name and \<^verbatim>\<open>.*\<close>), no index and no log, it answers \<^verbatim>\<open>True\<close>
  whenever the conversation file can be saved, and leaves the log, the vector store and
  every path of the disk as they were, apart from the backup, the temporary file and the
  conversation file, which then holds the log.
\<close>

theorem delete_pdf_idempotent:
  assumes "storage_path (chat_manager self) = DEFAULT_STORAGE_PATH" "plain_name name"
  shows "(delete_pdf self name ts = (True, self') \<longrightarrow>
       load_vectorstore (filesystem self') name = Inr PyNone \<and>
       map_of (history (chat_manager self')) name = None \<and>
       (\<exists>self''. delete_pdf self' name ts' = (True, self'') \<and>
          chat_manager self'' = chat_manager self' \<and> vector_store self'' = vector_store self' \<and>
          (\<forall>p. p \<noteq> [''data'', ''chat_history.backup_'' @ ts'] \<and>
               p \<noteq> [''data'', ''chat_history.backup_'' @ ts', ''chat_history.json''] \<longrightarrow>
               stat (filesystem self'') p = stat (filesystem self') p))) \<and>
    (glob (filesystem self) PDF_UPLOAD_DIR (name @ ''.*'') = [] \<and>
     \<not> exists (filesystem self) (child VECTOR_STORE_DIR name) \<and>
     map_of (history (chat_manager self)) name = None \<and>
     stat (filesystem self) [''data''] = Some Dir \<and>
     stat (filesystem self) [''data'', ''chat_history.tmp''] \<noteq> Some Dir \<and>
     stat (filesystem self) DEFAULT_STORAGE_PATH \<noteq> Some Dir \<longrightarrow>
       (\<exists>self''. delete_pdf self name ts = (True, self'') \<and>
          chat_manager self'' = chat_manager self \<and> vector_store self'' = vector_store self \<and>
          stat (filesystem self'') DEFAULT_STORAGE_PATH = Some (File (JsonDoc (history (chat_manager self)))) \<and>
          (\<forall>p. p \<noteq> [''data'', ''chat_history.backup_'' @ ts] \<and>
               p \<noteq> [''data'', ''chat_history.backup_'' @ ts, ''chat_history.json''] \<and>
               p \<noteq> [''data'', ''chat_history.tmp''] \<and> p \<noteq> DEFAULT_STORAGE_PATH \<longrightarrow>
               stat (filesystem self'') p = stat (filesystem self) p)))"
proof (intro conjI impI)
  have sp: "storage_path (chat_manager self) = [''data'', ''chat_history.json'']"
    using assms(1) by (simp add: DEFAULT_STORAGE_PATH_def)
  {
    assume ok: "delete_pdf self name ts = (True, self')"
    note post = delete_pdf_post[OF sp ok]
    show "load_vectorstore (filesystem self') name = Inr PyNone"
      using post(3) by (rule load_vectorstore_missing)
    show "map_of (history (chat_manager self')) name = None" by (rule post(4))
    have nd: "stat (filesystem self') [''data'', ''chat_history.tmp''] \<noteq> Some Dir"
      "stat (filesystem self') [''data'', ''chat_history.json''] \<noteq> Some Dir"
      using post(6,7) by simp_all
    from delete_pdf_absent_frame[OF post(1) post(2) post(3) post(4) post(5) nd, of ts']
    obtain s2 where s2: "delete_pdf self' name ts' = (True, s2)"
      "chat_manager s2 = chat_manager self'" "vector_store s2 = vector_store self'"
      "stat (filesystem s2) [''data'', ''chat_history.json''] =
          Some (File (JsonDoc (history (chat_manager self'))))"
      "stat (filesystem s2) [''data'', ''chat_history.tmp''] = None"
      "\<forall>p. p \<noteq> [''data'', ''chat_history.backup_'' @ ts'] \<and>
          p \<noteq> [''data'', ''chat_history.backup_'' @ ts', ''chat_history.json''] \<and>
          p \<noteq> [''data'', ''chat_history.tmp''] \<and> p \<noteq> [''data'', ''chat_history.json''] \<longrightarrow>
          stat (filesystem s2) p = stat (filesystem self') p"
      by blast
    have "stat (filesystem s2) p = stat (filesystem self') p"
      if "p \<noteq> [''data'', ''chat_history.backup_'' @ ts']"
         "p \<noteq> [''data'', ''chat_history.backup_'' @ ts', ''chat_history.json'']" for p
    proof (cases "p = [''data'', ''chat_history.tmp''] \<or> p = [''data'', ''chat_history.json'']")
      case True
      then show ?thesis using s2(4,5) post(6,7) by auto
    next
      case False
      then show ?thesis using s2(6) that by blast
    qed
    with s2(1,2,3)
    show "\<exists>self''. delete_pdf self' name ts' = (True, self'') \<and>
          chat_manager self'' = chat_manager self' \<and> vector_store self'' = vector_store self' \<and>
          (\<forall>p. p \<noteq> [''data'', ''chat_history.backup_'' @ ts'] \<and>
               p \<noteq> [''data'', ''chat_history.backup_'' @ ts', ''chat_history.json''] \<longrightarrow>
               stat (filesystem self'') p = stat (filesystem self') p)"
      by blast
  }
  {
    assume a: "glob (filesystem self) PDF_UPLOAD_DIR (name @ ''.*'') = [] \<and>
     \<not> exists (filesystem self) (child VECTOR_STORE_DIR name) \<and>
     map_of (history (chat_manager self)) name = None \<and>
     stat (filesystem self) [''data''] = Some Dir \<and>
     stat (filesystem self) [''data'', ''chat_history.tmp''] \<noteq> Some Dir \<and>
     stat (filesystem self) DEFAULT_STORAGE_PATH \<noteq> Some Dir"
    then have g: "glob (filesystem self) PDF_UPLOAD_DIR (name @ ''.*'') = []"
      and v: "\<not> exists (filesystem self) (child VECTOR_STORE_DIR name)"
      and h: "map_of (history (chat_manager self)) name = None"
      and s1: "stat (filesystem self) [''data''] = Some Dir"
      and s2: "stat (filesystem self) [''data'', ''chat_history.tmp''] \<noteq> Some Dir"
      and s3: "stat (filesystem self) [''data'', ''chat_history.json''] \<noteq> Some Dir"
      by (simp_all add: DEFAULT_STORAGE_PATH_def)
    from delete_pdf_absent_frame[OF sp g v h s1 s2 s3, of ts]
    obtain s where "delete_pdf self name ts = (True, s)"
      "chat_manager s = chat_manager self" "vector_store s = vector_store self"
      "stat (filesystem s) [''data'', ''chat_history.json''] =
          Some (File (JsonDoc (history (chat_manager self))))"
      "\<forall>p. p \<noteq> [''data'', ''chat_history.backup_'' @ ts] \<and>
          p \<noteq> [''data'', ''chat_history.backup_'' @ ts, ''chat_history.json''] \<and>
          p \<noteq> [''data'', ''chat_history.tmp''] \<and> p \<noteq> [''data'', ''chat_history.json''] \<longrightarrow>
          stat (filesystem s) p = stat (filesystem self) p"
      by blast
    then show "\<exists>self''. delete_pdf self name ts = (True, self'') \<and>
          chat_manager self'' = chat_manager self \<and> vector_store self'' = vector_store self \<and>
          stat (filesystem self'') DEFAULT_STORAGE_PATH = Some (File (JsonDoc (history (chat_manager self)))) \<and>
          (\<forall>p. p \<noteq> [''data'', ''chat_history.backup_'' @ ts] \<and>
               p \<noteq> [''data'', ''chat_history.backup_'' @ ts, ''chat_history.json''] \<and>
               p \<noteq> [''data'', ''chat_history.tmp''] \<and> p \<noteq> DEFAULT_STORAGE_PATH \<longrightarrow>
               stat (filesystem self'') p = stat (filesystem self) p)"
      unfolding DEFAULT_STORAGE_PATH_def by (intro exI[of _ s]) simp
  }
qed

theorem delete_pdf_idempotent_witness:
  "load_vectorstore (filesystem (snd (delete_pdf demo_engine ''doc'' ''20240101_000000''))) ''doc'' = Inr PyNone \<and>
   map_of (history (chat_manager (snd (delete_pdf demo_engine ''doc'' ''20240101_000000'')))) ''doc'' = None \<and>
   (\<exists>self''. delete_pdf (snd (delete_pdf demo_engine ''doc'' ''20240101_000000'')) ''doc'' ''20240101_000001''
       = (True, self'')) \<and>
   (\<exists>self''. delete_pdf demo_engine ''ghost'' ''20240101_000000'' = (True, self'') \<and>
       chat_manager self'' = chat_manager demo_engine)"
proof -
  have sp: "storage_path (chat_manager demo_engine) = DEFAULT_STORAGE_PATH" by code_simp
  have pd: "plain_name ''doc''" and pg: "plain_name ''ghost''" by code_simp+
  have ok: "delete_pdf demo_engine ''doc'' ''20240101_000000'' =
      (True, snd (delete_pdf demo_engine ''doc'' ''20240101_000000''))"
    using demo_delete by (metis prod.collapse)
  have absent: "glob (filesystem demo_engine) PDF_UPLOAD_DIR (''ghost'' @ ''.*'') = [] \<and>
     \<not> exists (filesystem demo_engine) (child VECTOR_STORE_DIR ''ghost'') \<and>
     map_of (history (chat_manager demo_engine)) ''ghost'' = None \<and>
     stat (filesystem demo_engine) [''data''] = Some Dir \<and>
     stat (filesystem demo_engine) [''data'', ''chat_history.tmp''] \<noteq> Some Dir \<and>
     stat (filesystem demo_engine) DEFAULT_STORAGE_PATH \<noteq> Some Dir"
    by code_simp
  note first = delete_pdf_idempotent[OF sp pd, of "''20240101_000000''"
        "snd (delete_pdf demo_engine ''doc'' ''20240101_000000'')" "''20240101_000001''", THEN conjunct1,
        rule_format, OF ok]
  note second = delete_pdf_idempotent[OF sp pg, of "''20240101_000000''" demo_engine
        "''20240101_000000''", THEN conjunct2, rule_format, OF absent]
  have a: "load_vectorstore (filesystem (snd (delete_pdf demo_engine ''doc'' ''20240101_000000''))) ''doc'' = Inr PyNone"
    using first by (rule conjunct1)
  have b: "map_of (history (chat_manager (snd (delete_pdf demo_engine ''doc'' ''20240101_000000'')))) ''doc'' = None"
    using first by (elim conjE)
  have c: "\<exists>self''. delete_pdf (snd (delete_pdf demo_engine ''doc'' ''20240101_000000'')) ''doc'' ''20240101_000001''
       = (True, self'')"
    using first by (elim conjE exE) (rule exI)
  have d: "\<exists>self''. delete_pdf demo_engine ''ghost'' ''20240101_000000'' = (True, self'') \<and>
       chat_manager self'' = chat_manager demo_engine"
    using second by (elim conjE exE) (rule exI, rule conjI)
  show ?thesis using a b c d by (intro conjI)
qed

end
